theory Spec2Isabelle
  imports Complex_Main
begin

section \<open>Python values used by the trader\<close>

text \<open>
  The model follows \<^verbatim>\<open>src/example_models/VolumeAdjustW12_2.py\<close>. Python integers are
  unbounded, so they are \<open>int\<close>. Every exception the handlers can raise is a value of
  \<open>error\<close>.
\<close>

datatype error =
  IndexError | ZeroDivisionError | OverflowError | ValueError | UnicodeDecodeError

definition bind_err :: "'e + 'a \<Rightarrow> ('a \<Rightarrow> 'e + 'b) \<Rightarrow> 'e + 'b" where
  "bind_err m f = (case m of Inl e \<Rightarrow> Inl e | Inr x \<Rightarrow> f x)"

definition getitem :: "'a list \<Rightarrow> nat \<Rightarrow> error + 'a" where
  \<comment> \<open>\<^verbatim>\<open>xs[i]\<close> for a literal index \<open>i \<ge> 0\<close>: IndexError past the end.\<close>
  "getitem xs i = (if i < length xs then Inr (xs ! i) else Inl IndexError)"

subsection \<open>Double-precision floats\<close>

text \<open>
  A Python \<^verbatim>\<open>float\<close> is an IEEE-754 binary64 number. A finite one is carried by its
  exact value, the two infinities and NaN are constructors of their own. The sign of a
  zero is dropped: the trader only converts floats with \<^verbatim>\<open>int\<close>, compares them and
  divides by them, Python raises on a division by either zero, and the other two
  operations do not see the sign.

  \<open>roundd\<close> rounds a real number to the nearest double, ties to the even significand:
  53 significant bits, the subnormal spacing \<open>2^-1074\<close> at the bottom, and infinity when
  the rounded value reaches \<open>2^1024\<close>.
\<close>

datatype pyfloat = Fl real | PosInf | NegInf | NaN

definition pow2 :: "int \<Rightarrow> real" where
  "pow2 k = (if 0 \<le> k then 2 ^ nat k else 1 / 2 ^ nat (- k))"

definition rnd_even :: "real \<Rightarrow> int" where
  "rnd_even x = (let f = \<lfloor>x\<rfloor>; d = x - of_int f in
     if d < 1/2 then f else if 1/2 < d then f + 1 else if even f then f else f + 1)"

function ilog2 :: "int \<Rightarrow> int" where
  "ilog2 n = (if n < 2 then 0 else 1 + ilog2 (n div 2))"
  by pat_completeness auto
termination
  by (relation "measure nat") auto

declare ilog2.simps [simp del]

definition flog2 :: "real \<Rightarrow> int" where
  \<comment> \<open>for \<open>a > 0\<close>: the \<open>e\<close> with \<open>2^e \<le> a < 2^(e+1)\<close>\<close>
  "flog2 a = (if 1 \<le> a then ilog2 \<lfloor>a\<rfloor> else - (ilog2 (\<lceil>1 / a\<rceil> - 1) + 1))"

definition roundd :: "real \<Rightarrow> pyfloat" where
  "roundd x = (if x = 0 then Fl 0 else
     let a = \<bar>x\<bar>;
         u = pow2 (max (flog2 a - 52) (- 1074));
         r = of_int (rnd_even (a / u)) * u
     in if pow2 1024 \<le> r then (if 0 < x then PosInf else NegInf)
        else Fl (if 0 < x then r else - r))"

definition float_of_int :: "int \<Rightarrow> error + pyfloat" where
  \<comment> \<open>the conversion of an \<^verbatim>\<open>int\<close> operand of a float operation: OverflowError
     (int too large to convert to float) instead of an infinity\<close>
  "float_of_int n = (case roundd (of_int n) of Fl r \<Rightarrow> Inr (Fl r) | _ \<Rightarrow> Inl OverflowError)"

fun fneg :: "pyfloat \<Rightarrow> pyfloat" where
  "fneg (Fl x) = Fl (- x)"
| "fneg PosInf = NegInf"
| "fneg NegInf = PosInf"
| "fneg NaN = NaN"

fun fadd :: "pyfloat \<Rightarrow> pyfloat \<Rightarrow> pyfloat" where
  "fadd NaN _ = NaN"
| "fadd _ NaN = NaN"
| "fadd PosInf NegInf = NaN"
| "fadd NegInf PosInf = NaN"
| "fadd PosInf _ = PosInf"
| "fadd _ PosInf = PosInf"
| "fadd NegInf _ = NegInf"
| "fadd _ NegInf = NegInf"
| "fadd (Fl x) (Fl y) = roundd (x + y)"

definition fsub :: "pyfloat \<Rightarrow> pyfloat \<Rightarrow> pyfloat" where
  "fsub a b = fadd a (fneg b)"

definition inf_signed :: "bool \<Rightarrow> pyfloat" where
  "inf_signed negative = (if negative then NegInf else PosInf)"

fun fmul :: "pyfloat \<Rightarrow> pyfloat \<Rightarrow> pyfloat" where
  "fmul NaN _ = NaN"
| "fmul _ NaN = NaN"
| "fmul (Fl x) (Fl y) = roundd (x * y)"
| "fmul (Fl x) b = (if x = 0 then NaN else inf_signed ((x < 0) \<noteq> (b = NegInf)))"
| "fmul a (Fl y) = (if y = 0 then NaN else inf_signed ((a = NegInf) \<noteq> (y < 0)))"
| "fmul a b = inf_signed ((a = NegInf) \<noteq> (b = NegInf))"

fun ieee_div :: "pyfloat \<Rightarrow> pyfloat \<Rightarrow> pyfloat" where
  \<comment> \<open>the quotient for a divisor that is not zero\<close>
  "ieee_div NaN _ = NaN"
| "ieee_div _ NaN = NaN"
| "ieee_div (Fl x) (Fl y) = roundd (x / y)"
| "ieee_div (Fl x) b = Fl 0"
| "ieee_div a (Fl y) = inf_signed ((a = NegInf) \<noteq> (y < 0))"
| "ieee_div a b = NaN"

definition truediv :: "pyfloat \<Rightarrow> pyfloat \<Rightarrow> error + pyfloat" where
  \<comment> \<open>Python's \<^verbatim>\<open>a / b\<close> on floats: ZeroDivisionError when \<open>b\<close> is zero\<close>
  "truediv a b = (if b = Fl 0 then Inl ZeroDivisionError else Inr (ieee_div a b))"

definition trunc_real :: "real \<Rightarrow> int" where
  "trunc_real x = (if 0 \<le> x then \<lfloor>x\<rfloor> else \<lceil>x\<rceil>)"

fun int_of_float :: "pyfloat \<Rightarrow> error + int" where
  \<comment> \<open>\<^verbatim>\<open>int(x)\<close>: truncation towards zero; OverflowError on an infinity, ValueError
     on NaN\<close>
  "int_of_float (Fl x) = Inr (trunc_real x)"
| "int_of_float PosInf = Inl OverflowError"
| "int_of_float NegInf = Inl OverflowError"
| "int_of_float NaN = Inl ValueError"

fun float_lt_int :: "pyfloat \<Rightarrow> int \<Rightarrow> bool" where
  \<comment> \<open>\<^verbatim>\<open>x < n\<close> for a float and an int: exact, and False on NaN\<close>
  "float_lt_int (Fl x) n = (x < of_int n)"
| "float_lt_int NegInf n = True"
| "float_lt_int PosInf n = False"
| "float_lt_int NaN n = False"

definition int_mul_float :: "int \<Rightarrow> pyfloat \<Rightarrow> error + pyfloat" where
  \<comment> \<open>\<^verbatim>\<open>n * w\<close> for an int and a float\<close>
  "int_mul_float n w = bind_err (float_of_int n) (\<lambda>f. Inr (fmul f w))"

subsection \<open>bytes.decode\<close>

text \<open>
  \<^verbatim>\<open>error_message.decode()\<close> is the strict UTF-8 decoder. Its result is only printed
  and logged, so what matters is whether it raises: it does on every byte string that is
  not well-formed UTF-8. Bytes are Isabelle characters, read by their code.
\<close>

definition cont_byte :: "nat \<Rightarrow> bool" where
  "cont_byte b = (128 \<le> b \<and> b \<le> 191)"

definition second_of_three :: "nat \<Rightarrow> nat \<Rightarrow> bool" where
  \<comment> \<open>the byte after a lead byte \<open>E0..EF\<close>: no overlong form, no surrogate\<close>
  "second_of_three b c =
     (if b = 224 then 160 \<le> c \<and> c \<le> 191
      else if b = 237 then 128 \<le> c \<and> c \<le> 159
      else cont_byte c)"

definition second_of_four :: "nat \<Rightarrow> nat \<Rightarrow> bool" where
  \<comment> \<open>the byte after a lead byte \<open>F0..F4\<close>: no overlong form, nothing past U+10FFFF\<close>
  "second_of_four b c =
     (if b = 240 then 144 \<le> c \<and> c \<le> 191
      else if b = 244 then 128 \<le> c \<and> c \<le> 143
      else cont_byte c)"

fun utf8_ok :: "nat list \<Rightarrow> bool" where
  "utf8_ok [] = True"
| "utf8_ok (b # bs) =
     (if b < 128 then utf8_ok bs
      else if 194 \<le> b \<and> b \<le> 223 then
        (case bs of c # r \<Rightarrow> cont_byte c \<and> utf8_ok r | _ \<Rightarrow> False)
      else if 224 \<le> b \<and> b \<le> 239 then
        (case bs of c # d # r \<Rightarrow> second_of_three b c \<and> cont_byte d \<and> utf8_ok r
         | _ \<Rightarrow> False)
      else if 240 \<le> b \<and> b \<le> 244 then
        (case bs of c # d # e # r \<Rightarrow>
           second_of_four b c \<and> cont_byte d \<and> cont_byte e \<and> utf8_ok r
         | _ \<Rightarrow> False)
      else False)"

definition decode :: "string \<Rightarrow> error + unit" where
  "decode msg = (if utf8_ok (map of_char msg) then Inr () else Inl UnicodeDecodeError)"

subsection \<open>bisect\<close>

text \<open>
  \<^verbatim>\<open>bisect\<close> is the standard library's \<^verbatim>\<open>bisect_right\<close>: a binary search for the
  insertion point after every entry that is at most \<open>x\<close>. The probe \<open>a ! mid\<close> is always
  in range, since \<open>lo \<le> mid < hi \<le> length a\<close>.
\<close>

function bisect_right :: "int list \<Rightarrow> int \<Rightarrow> nat \<Rightarrow> nat \<Rightarrow> nat" where
  "bisect_right a x lo hi =
     (if lo < hi
      then (if x < a ! ((lo + hi) div 2)
            then bisect_right a x lo ((lo + hi) div 2)
            else bisect_right a x ((lo + hi) div 2 + 1) hi)
      else lo)"
  by pat_completeness auto
termination
  by (relation "measure (\<lambda>(a, x, lo, hi). hi - lo)") auto

declare bisect_right.simps [simp del]

definition bisect :: "int list \<Rightarrow> int \<Rightarrow> nat" where
  "bisect a x = bisect_right a x 0 (length a)"


section \<open>The trader\<close>

subsection \<open>What the module imports\<close>

text \<open>
  \<^verbatim>\<open>Instrument\<close>, \<^verbatim>\<open>Side\<close>, \<^verbatim>\<open>Lifespan\<close>, \<^verbatim>\<open>MINIMUM_BID\<close> and \<^verbatim>\<open>MAXIMUM_ASK\<close> come
  from the package \<^verbatim>\<open>ready_trader_go\<close>, which is not part of the source. The three
  numbers the trader reads from it are parameters of the model.
\<close>

record ready_trader_go =
  Instrument_FUTURE :: int
  MINIMUM_BID :: int
  MAXIMUM_ASK :: int

text \<open>
  Modelled from the spec: the enumeration \<^verbatim>\<open>Side\<close> is declared in \<^verbatim>\<open>ready_trader_go\<close>.
  The trader writes \<^verbatim>\<open>Side.BUY\<close> and \<^verbatim>\<open>Side.SELL\<close> for its quotes, \<^verbatim>\<open>Side.ASK\<close> for the
  hedge of a bid fill and \<^verbatim>\<open>Side.BID\<close> for the hedge of an ask fill; the spec (section
  4.5) calls the first hedge a sell and the second a buy, so \<open>ASK\<close> is \<open>SELL\<close> and
  \<open>BID\<close> is \<open>BUY\<close>.
\<close>

datatype Side = SELL | BUY

definition ASK :: Side where "ASK = SELL"
definition BID :: Side where "BID = BUY"

datatype Lifespan = FILL_AND_KILL | GOOD_FOR_DAY

definition LOT_SIZE :: int where "LOT_SIZE = 10"
definition POSITION_LIMIT :: int where "POSITION_LIMIT = 100"
definition TICK_SIZE_IN_CENTS :: int where "TICK_SIZE_IN_CENTS = 100"

definition MIN_BID_NEAREST_TICK :: "ready_trader_go \<Rightarrow> int" where
  "MIN_BID_NEAREST_TICK rtg =
     (MINIMUM_BID rtg + TICK_SIZE_IN_CENTS) div TICK_SIZE_IN_CENTS * TICK_SIZE_IN_CENTS"

definition MAX_ASK_NEAREST_TICK :: "ready_trader_go \<Rightarrow> int" where
  "MAX_ASK_NEAREST_TICK rtg = MAXIMUM_ASK rtg div TICK_SIZE_IN_CENTS * TICK_SIZE_IN_CENTS"

subsection \<open>State\<close>

text \<open>
  What the trader does to the outside is a list of effects, oldest first: the three
  commands it sends through \<^verbatim>\<open>BaseAutoTrader\<close> and the call of \<^verbatim>\<open>time.sleep\<close>.
\<close>

datatype effect =
    CancelOrder int
  | InsertOrder int Side int int Lifespan
  | HedgeOrder int Side int int
  | Sleep pyfloat

text \<open>
  The fields of \<^verbatim>\<open>AutoTrader.__init__\<close>. \<open>order_ids\<close> is the number that
  \<^verbatim>\<open>next(self.order_ids)\<close> returns next; \<open>size_attr\<close> is the attribute \<^verbatim>\<open>size\<close>.
  \<^verbatim>\<open>risk_factor\<close>, \<^verbatim>\<open>position_step\<close>, \<^verbatim>\<open>quote_ladder\<close>, \<^verbatim>\<open>l0_w\<close> and \<^verbatim>\<open>l1_w\<close> are
  assigned in \<^verbatim>\<open>__init__\<close> only and are constants here.
\<close>

record engine =
  order_ids :: int
  ask_id :: int
  ask_price :: int
  bid_id :: int
  bid_price :: int
  position :: int
  size_attr :: int
  bid_volume :: int
  ask_volume :: int
  new_bid_price :: int
  new_ask_price :: int
  last_bid_id :: int
  last_ask_id :: int
  abs_position :: int
  theo_price :: int
  bids :: "int set"
  asks :: "int set"
  start_second :: pyfloat
  current_time :: pyfloat
  time_diff :: pyfloat
  action_count :: int
  position_interval :: nat
  sent :: "effect list"

definition init_engine :: engine where
  "init_engine = \<lparr>order_ids = 1, ask_id = 0, ask_price = 0, bid_id = 0, bid_price = 0,
     position = 0, size_attr = 0, bid_volume = 0, ask_volume = 0, new_bid_price = 0,
     new_ask_price = 0, last_bid_id = 0, last_ask_id = 0, abs_position = 0, theo_price = 0,
     bids = {}, asks = {}, start_second = Fl 0, current_time = Fl 0, time_diff = Fl 0,
     action_count = 0, position_interval = 0, sent = []\<rparr>"

definition risk_factor :: int where "risk_factor = 4"

definition position_step :: "int list" where
  "position_step = [-94, -90, -81, -64, -44, 0, 1, 45, 65, 82, 91, 95]"

definition quote_ladder :: "(int \<times> int) list" where
  "quote_ladder =
    [(95, 97),
     (95, 95),
     (85, 90),
     (65, 82),
     (45, 70),
     (49 - risk_factor, 49 - risk_factor),
     (30, 30),
     (49 - risk_factor, 49 - risk_factor),
     (70 - risk_factor, 45 - risk_factor),
     (81 - risk_factor, 65),
     (90 - risk_factor, 85),
     (95 - risk_factor, 95),
     (97 - risk_factor, 95)]"

definition l0_w :: pyfloat where
  \<comment> \<open>the double written \<^verbatim>\<open>0.35\<close>\<close>
  "l0_w = Fl (3152519739159347 / 9007199254740992)"

definition l1_w :: pyfloat where
  \<comment> \<open>the double written \<^verbatim>\<open>0.65\<close>\<close>
  "l1_w = Fl (5854679515581645 / 9007199254740992)"

definition sleep_base :: pyfloat where
  \<comment> \<open>the double written \<^verbatim>\<open>1.01\<close>\<close>
  "sleep_base = Fl (4548635623644201 / 4503599627370496)"

subsection \<open>The theoretical price (lines 120 to 143)\<close>

text \<open>
  Python evaluates the four products of the numerator from left to right, each one
  reading its price, then its volume, then converting the integer product to a float;
  then the four products of the denominator; then the two divisions and \<^verbatim>\<open>int\<close>. The
  first step that raises decides the exception. The parameters keep the order of the
  handler's: ask prices, ask volumes, bid prices, bid volumes.
\<close>

definition theo_numerator :: "int list \<Rightarrow> int list \<Rightarrow> int list \<Rightarrow> int list \<Rightarrow> error + pyfloat" where
  "theo_numerator ask_prices ask_volumes bid_prices bid_volumes =
     bind_err (getitem bid_prices 0) (\<lambda>bp0.
     bind_err (getitem bid_volumes 0) (\<lambda>bv0.
     bind_err (int_mul_float (bp0 * bv0) l0_w) (\<lambda>t0.
     bind_err (getitem bid_prices 1) (\<lambda>bp1.
     bind_err (getitem bid_volumes 1) (\<lambda>bv1.
     bind_err (int_mul_float (bp1 * bv1) l1_w) (\<lambda>t1.
     bind_err (getitem ask_prices 0) (\<lambda>ap0.
     bind_err (getitem ask_volumes 0) (\<lambda>av0.
     bind_err (int_mul_float (ap0 * av0) l0_w) (\<lambda>t2.
     bind_err (getitem ask_prices 1) (\<lambda>ap1.
     bind_err (getitem ask_volumes 1) (\<lambda>av1.
     bind_err (int_mul_float (ap1 * av1) l1_w) (\<lambda>t3.
     Inr (fadd (fadd (fadd t0 t1) t2) t3)))))))))))))"

definition theo_denominator :: "int list \<Rightarrow> int list \<Rightarrow> error + pyfloat" where
  "theo_denominator ask_volumes bid_volumes =
     bind_err (getitem bid_volumes 0) (\<lambda>bv0.
     bind_err (int_mul_float bv0 l0_w) (\<lambda>d0.
     bind_err (getitem bid_volumes 1) (\<lambda>bv1.
     bind_err (int_mul_float bv1 l1_w) (\<lambda>d1.
     bind_err (getitem ask_volumes 0) (\<lambda>av0.
     bind_err (int_mul_float av0 l0_w) (\<lambda>d2.
     bind_err (getitem ask_volumes 1) (\<lambda>av1.
     bind_err (int_mul_float av1 l1_w) (\<lambda>d3.
     Inr (fadd (fadd d0 d1) (fadd d2 d3))))))))))"

definition theoretical_price :: "int list \<Rightarrow> int list \<Rightarrow> int list \<Rightarrow> int list \<Rightarrow> error + int" where
  \<comment> \<open>\<^verbatim>\<open>int((numerator / denominator) / 100) * 100\<close>; the integer 100 converts to the
     float 100 exactly\<close>
  "theoretical_price ask_prices ask_volumes bid_prices bid_volumes =
     bind_err (theo_numerator ask_prices ask_volumes bid_prices bid_volumes) (\<lambda>n.
     bind_err (theo_denominator ask_volumes bid_volumes) (\<lambda>d.
     bind_err (truediv n d) (\<lambda>q.
     bind_err (truediv q (Fl 100)) (\<lambda>h.
     bind_err (int_of_float h) (\<lambda>k.
     Inr (k * 100))))))"

subsection \<open>on_order_status_message, on_error_message, on_order_filled_message\<close>

definition on_order_status_message :: "engine \<Rightarrow> int \<Rightarrow> int \<Rightarrow> int \<Rightarrow> int \<Rightarrow> engine" where
  "on_order_status_message s client_order_id fill_volume remaining_volume fees =
     (if remaining_volume = 0 then
        (let s1 = (if client_order_id = bid_id s then s\<lparr>bid_id := 0\<rparr>
                   else if client_order_id = ask_id s then s\<lparr>ask_id := 0\<rparr>
                   else s)
         in s1\<lparr>bids := bids s1 - {client_order_id}, asks := asks s1 - {client_order_id}\<rparr>)
      else s)"

text \<open>
  A handler that can raise returns \<open>Inl\<close> of the exception and the state the object is
  left in, or \<open>Inr\<close> of the state it returns with. Printing and logging change nothing
  in the trader; only the \<^verbatim>\<open>decode\<close> of their argument can raise.
\<close>

type_synonym outcome = "(error \<times> engine) + engine"

definition on_error_message :: "engine \<Rightarrow> int \<Rightarrow> string \<Rightarrow> outcome" where
  "on_error_message s client_order_id error_message =
     (case decode error_message of
        Inl e \<Rightarrow> Inl (e, s)
      | Inr _ \<Rightarrow> Inr (on_order_status_message s client_order_id 0 0 0))"

definition on_order_filled_message :: "ready_trader_go \<Rightarrow> engine \<Rightarrow> int \<Rightarrow> int \<Rightarrow> int \<Rightarrow> engine" where
  "on_order_filled_message rtg s client_order_id price volume =
     (if client_order_id \<in> bids s then
        s\<lparr>position := position s + volume,
          order_ids := order_ids s + 1,
          sent := sent s @ [HedgeOrder (order_ids s) ASK (MIN_BID_NEAREST_TICK rtg) volume]\<rparr>
      else if client_order_id \<in> asks s then
        s\<lparr>position := position s - volume,
          order_ids := order_ids s + 1,
          sent := sent s @ [HedgeOrder (order_ids s) BID (MAX_ASK_NEAREST_TICK rtg) volume]\<rparr>
      else s)"

definition on_trade_ticks_message ::
  "engine \<Rightarrow> int \<Rightarrow> int \<Rightarrow> int list \<Rightarrow> int list \<Rightarrow> int list \<Rightarrow> int list \<Rightarrow> engine" where
  "on_trade_ticks_message s instrument sequence_number ask_prices ask_volumes bid_prices bid_volumes = s"

subsection \<open>on_order_book_update_message\<close>

definition update_theo :: "engine \<Rightarrow> int list \<Rightarrow> int list \<Rightarrow> int list \<Rightarrow> int list \<Rightarrow> outcome" where
  \<comment> \<open>lines 119 to 147; after \<open>theoretical_price\<close> has returned, index 0 of both price
     lists is in range\<close>
  "update_theo s ask_prices ask_volumes bid_prices bid_volumes =
     (if 0 \<notin> set bid_prices \<and> action_count s \<le> 16 then
        (case theoretical_price ask_prices ask_volumes bid_prices bid_volumes of
           Inl e \<Rightarrow> Inl (e, s)
         | Inr p \<Rightarrow>
             Inr (s\<lparr>theo_price := p,
                    new_bid_price := (if bid_prices ! 0 \<noteq> 0 then p - 100 else 0),
                    new_ask_price := (if ask_prices ! 0 \<noteq> 0 then p + 100 else 0)\<rparr>))
      else Inr s)"

definition cancel_bid :: "engine \<Rightarrow> engine" where
  \<comment> \<open>lines 153 to 156\<close>
  "cancel_bid s =
     (if bid_id s \<noteq> 0 \<and> new_bid_price s \<noteq> bid_price s \<and> new_bid_price s \<noteq> 0 then
        s\<lparr>sent := sent s @ [CancelOrder (bid_id s)], bid_id := 0,
          action_count := action_count s + 1\<rparr>
      else s)"

definition cancel_ask :: "engine \<Rightarrow> engine" where
  \<comment> \<open>lines 157 to 160\<close>
  "cancel_ask s =
     (if ask_id s \<noteq> 0 \<and> new_ask_price s \<noteq> ask_price s \<and> new_ask_price s \<noteq> 0 then
        s\<lparr>sent := sent s @ [CancelOrder (ask_id s)], ask_id := 0,
          action_count := action_count s + 1\<rparr>
      else s)"

definition cancel_quotes :: "engine \<Rightarrow> engine" where
  \<comment> \<open>lines 150 to 160: one test of the action count guards both cancels\<close>
  "cancel_quotes s = (if action_count s \<le> 16 then cancel_ask (cancel_bid s) else s)"

definition size_quotes :: "engine \<Rightarrow> outcome" where
  \<comment> \<open>lines 165 to 178\<close>
  "size_quotes s =
     (let i = bisect position_step (position s);
          s1 = s\<lparr>position_interval := i\<rparr>
      in case getitem quote_ladder i of
           Inl e \<Rightarrow> Inl (e, s1)
         | Inr (b, a) \<Rightarrow>
             (let b1 = (if 0 \<le> position s then b - position s else b);
                  a1 = (if 0 \<le> position s then a else a - \<bar>position s\<bar>)
              in Inr (s1\<lparr>bid_volume := (if b1 < 0 then 0 else b1),
                         ask_volume := (if a1 < 0 then 0 else a1)\<rparr>)))"

definition place_bid :: "engine \<Rightarrow> engine" where
  \<comment> \<open>lines 181 to 196\<close>
  "place_bid s =
     (if bid_id s = 0 \<and> new_bid_price s \<noteq> 0 \<and> bid_volume s \<noteq> 0 then
        s\<lparr>bid_id := order_ids s,
          order_ids := order_ids s + 1,
          bid_price := new_bid_price s,
          sent := sent s @
            [InsertOrder (order_ids s) BUY (new_bid_price s) (bid_volume s) GOOD_FOR_DAY],
          bids := insert (order_ids s) (bids s),
          action_count := action_count s + 1\<rparr>
      else s)"

definition place_ask :: "engine \<Rightarrow> engine" where
  \<comment> \<open>lines 199 to 214\<close>
  "place_ask s =
     (if ask_id s = 0 \<and> new_ask_price s \<noteq> 0 \<and> ask_volume s \<noteq> 0 then
        s\<lparr>ask_id := order_ids s,
          order_ids := order_ids s + 1,
          ask_price := new_ask_price s,
          sent := sent s @
            [InsertOrder (order_ids s) SELL (new_ask_price s) (ask_volume s) GOOD_FOR_DAY],
          asks := insert (order_ids s) (asks s),
          action_count := action_count s + 1\<rparr>
      else s)"

definition reset_action_count :: "pyfloat \<Rightarrow> engine \<Rightarrow> engine" where
  \<comment> \<open>lines 218 to 227; \<open>now\<close> is what \<^verbatim>\<open>time.time()\<close> returns on line 218\<close>
  "reset_action_count now s =
     (let d = fsub now (start_second s);
          s1 = s\<lparr>current_time := now, time_diff := d\<rparr>;
          s2 = (if float_lt_int d 1 then s1\<lparr>sent := sent s1 @ [Sleep (fsub sleep_base d)]\<rparr>
                else s1)
      in s2\<lparr>action_count := 0\<rparr>)"

text \<open>
  \<open>clock\<close> holds what \<^verbatim>\<open>time.time()\<close> returns on line 116 and on line 218, for the
  calls that are made.
\<close>

definition mark_start :: "pyfloat \<Rightarrow> engine \<Rightarrow> engine" where
  \<comment> \<open>lines 115 and 116; \<open>now\<close> is what \<^verbatim>\<open>time.time()\<close> returns on line 116\<close>
  "mark_start now s = (if action_count s = 0 then s\<lparr>start_second := now\<rparr> else s)"

definition on_order_book_update_message ::
  "ready_trader_go \<Rightarrow> pyfloat \<times> pyfloat \<Rightarrow> engine \<Rightarrow> int \<Rightarrow> int \<Rightarrow>
     int list \<Rightarrow> int list \<Rightarrow> int list \<Rightarrow> int list \<Rightarrow> outcome" where
  "on_order_book_update_message rtg clock s instrument sequence_number
       ask_prices ask_volumes bid_prices bid_volumes =
     (if instrument = Instrument_FUTURE rtg then
        (case update_theo (mark_start (fst clock) s)
                ask_prices ask_volumes bid_prices bid_volumes of
           Inl e \<Rightarrow> Inl e
         | Inr s1 \<Rightarrow>
             (let s2 = cancel_quotes s1
              in if action_count s2 \<le> 14 then
                   (case size_quotes s2 of
                      Inl e \<Rightarrow> Inl e
                    | Inr s3 \<Rightarrow> Inr (place_ask (place_bid s3)))
                 else if 14 \<le> action_count s2 then
                   Inr (reset_action_count (snd clock) s2)
                 else Inr s2))
      else Inr s)"

subsection \<open>Events and runs\<close>

datatype event =
    OrderBookUpdate "pyfloat \<times> pyfloat" int int "int list" "int list" "int list" "int list"
  | OrderStatus int int int int
  | OrderFilled int int int
  | ErrorMessage int string
  | TradeTicks int int "int list" "int list" "int list" "int list"

fun handle :: "ready_trader_go \<Rightarrow> engine \<Rightarrow> event \<Rightarrow> outcome" where
  "handle rtg s (OrderBookUpdate clock i n ap av bp bv) =
     on_order_book_update_message rtg clock s i n ap av bp bv"
| "handle rtg s (OrderStatus c f r fees) = Inr (on_order_status_message s c f r fees)"
| "handle rtg s (OrderFilled c p v) = Inr (on_order_filled_message rtg s c p v)"
| "handle rtg s (ErrorMessage c m) = on_error_message s c m"
| "handle rtg s (TradeTicks i n ap av bp bv) = Inr (on_trade_ticks_message s i n ap av bp bv)"

fun state_after :: "outcome \<Rightarrow> engine" where
  "state_after (Inl (e, s)) = s"
| "state_after (Inr s) = s"

text \<open>
  A run handles the events one at a time, in the order of their arrival. After a handler
  has raised, the run goes on from the state the trader was left in: the states of a host
  that stops at the first exception are among these.
\<close>

fun run :: "ready_trader_go \<Rightarrow> engine \<Rightarrow> event list \<Rightarrow> engine" where
  "run rtg s [] = s"
| "run rtg s (ev # evs) = run rtg (state_after (handle rtg s ev)) evs"

subsection \<open>What a run has sent\<close>

fun issued_ids :: "effect list \<Rightarrow> int list" where
  \<comment> \<open>the order ids of the inserts and hedges, in the order they were sent\<close>
  "issued_ids [] = []"
| "issued_ids (InsertOrder i sd p v l # es) = i # issued_ids es"
| "issued_ids (HedgeOrder i sd p v # es) = i # issued_ids es"
| "issued_ids (e # es) = issued_ids es"

fun cancelled_ids :: "effect list \<Rightarrow> int list" where
  "cancelled_ids [] = []"
| "cancelled_ids (CancelOrder i # es) = i # cancelled_ids es"
| "cancelled_ids (e # es) = cancelled_ids es"

fun sleeps :: "effect list \<Rightarrow> pyfloat list" where
  "sleeps [] = []"
| "sleeps (Sleep d # es) = d # sleeps es"
| "sleeps (e # es) = sleeps es"

definition emitted :: "engine \<Rightarrow> engine \<Rightarrow> effect list" where
  \<comment> \<open>what has been sent between an earlier state and a later one\<close>
  "emitted s s' = drop (length (sent s)) (sent s')"

fun is_book :: "event \<Rightarrow> bool" where
  "is_book (OrderBookUpdate clock i n ap av bp bv) = True"
| "is_book _ = False"

fun targets_stay :: "ready_trader_go \<Rightarrow> int \<times> int \<Rightarrow> engine \<Rightarrow> event list \<Rightarrow> bool" where
  \<comment> \<open>after every event of the list, the target bid and ask prices are the pair \<open>t\<close>\<close>
  "targets_stay rtg t s [] = True"
| "targets_stay rtg t s (ev # evs) =
     ((new_bid_price (state_after (handle rtg s ev)),
       new_ask_price (state_after (handle rtg s ev))) = t
      \<and> targets_stay rtg t (state_after (handle rtg s ev)) evs)"

text \<open>
  Facts that hold between any two events of a run: the action count stays at 16 or
  below, a working quote rests at the target price unless the target is 0, and the order
  ids in use are below the counter and apart from each other.
\<close>

definition target_ok :: "engine \<Rightarrow> bool" where
  "target_ok s \<longleftrightarrow>
     (bid_id s = 0 \<or> new_bid_price s = bid_price s \<or> new_bid_price s = 0)
     \<and> (ask_id s = 0 \<or> new_ask_price s = ask_price s \<or> new_ask_price s = 0)"

definition quote_inv :: "engine \<Rightarrow> bool" where
  "quote_inv s \<longleftrightarrow> action_count s \<le> 16 \<and> target_ok s"

definition ids_inv :: "engine \<Rightarrow> bool" where
  "ids_inv s \<longleftrightarrow>
     1 \<le> order_ids s
     \<and> issued_ids (sent s) = [1..order_ids s - 1]
     \<and> (bid_id s = 0 \<or> bid_id s \<in> bids s)
     \<and> (ask_id s = 0 \<or> ask_id s \<in> asks s)
     \<and> (\<forall>i \<in> bids s. i \<notin> asks s \<and> 1 \<le> i \<and> i < order_ids s)
     \<and> (\<forall>i \<in> asks s. 1 \<le> i \<and> i < order_ids s)"

subsection \<open>A concrete exchange and a concrete book\<close>

text \<open>
  Values to run the model on: an exchange whose future is instrument 0, with prices from
  1 to \<open>2^31 - 1\<close>; a book with five levels on each side, arriving at second 1000; and
  the state the trader is in after that book, from its initial state: a bid (order 1) and
  an ask (order 2) of 30 lots each, one tick either side of 10000.
\<close>

definition rtg0 :: ready_trader_go where
  "rtg0 = \<lparr>Instrument_FUTURE = 0, MINIMUM_BID = 1, MAXIMUM_ASK = 2147483647\<rparr>"

definition book1 :: event where
  "book1 = OrderBookUpdate (Fl 1000, Fl 1000) 0 1
     [10100, 10200, 10300, 10400, 10500] [10, 27, 30, 40, 50]
     [9900, 9800, 9700, 9600, 9500] [13, 20, 30, 40, 50]"

definition quoting :: engine where
  "quoting = init_engine\<lparr>order_ids := 3, ask_id := 2, ask_price := 10100, bid_id := 1,
     bid_price := 9900, bid_volume := 30, ask_volume := 30, new_bid_price := 9900,
     new_ask_price := 10100, theo_price := 10000, bids := {1}, asks := {2},
     start_second := Fl 1000, action_count := 2, position_interval := 6,
     sent := [InsertOrder 1 BUY 9900 30 GOOD_FOR_DAY, InsertOrder 2 SELL 10100 30 GOOD_FOR_DAY]\<rparr>"

text \<open>A second book, one tick above the first.\<close>

definition book2 :: event where
  "book2 = OrderBookUpdate (Fl 1001, Fl 1001) 0 2
     [10200, 10300, 10400, 10500, 10600] [10, 27, 30, 40, 50]
     [10000, 9900, 9800, 9700, 9600] [13, 20, 30, 40, 50]"

text \<open>
  Two runs. \<open>four_books\<close> moves the quotes three times; each move is two cancels and two
  inserts, so with the first two inserts the action count ends at 14. \<open>busy\<close> goes on:
  the exchange reports the two working orders done and the second book arrives again.
  \<open>book3\<close> is the first book again, half a second after the window of these runs began.
\<close>

definition four_books :: "event list" where
  "four_books = [book1, book2, book1, book2]"

definition busy :: "event list" where
  "busy = four_books @ [OrderStatus 7 30 0 0, OrderStatus 8 30 0 0, book2]"

definition book3 :: event where
  "book3 = OrderBookUpdate (Fl (2001 / 2), Fl (2001 / 2)) 0 3
     [10100, 10200, 10300, 10400, 10500] [10, 27, 30, 40, 50]
     [9900, 9800, 9700, 9600, 9500] [13, 20, 30, 40, 50]"

text \<open>A third book, with one bid level only and two ask levels.\<close>

definition thin_book :: event where
  "thin_book = OrderBookUpdate (Fl 1000, Fl 1000) 0 1
     [10200, 10300, 0, 0, 0] [10, 10, 0, 0, 0]
     [10000, 0, 0, 0, 0] [10, 0, 0, 0, 0]"

text \<open>
  A book with bids only: the ask side is empty, so every ask price and volume is 0. Its
  theoretical price is 10100, that of the second book.
\<close>

definition bid_only_book :: event where
  "bid_only_book = OrderBookUpdate (Fl 1000, Fl 1000) 0 2
     [0, 0, 0, 0, 0] [0, 0, 0, 0, 0]
     [10200, 10100, 10000, 9900, 9800] [13, 20, 30, 40, 50]"

section \<open>Verification\<close>

lemma bind_err_simps [simp]:
  "bind_err (Inl e) f = Inl e" "bind_err (Inr x) f = f x"
  by (simp_all add: bind_err_def)

lemma bisect_right_bounds:
  "lo \<le> hi \<Longrightarrow> lo \<le> bisect_right a x lo hi \<and> bisect_right a x lo hi \<le> hi"
proof (induction a x lo hi rule: bisect_right.induct)
  case (1 a x lo hi)
  show ?case
  proof (cases "lo < hi")
    case False
    with "1.prems" show ?thesis by (subst (1 2) bisect_right.simps) simp
  next
    case True
    let ?mid = "(lo + hi) div 2"
    from True have mid: "lo \<le> ?mid" "?mid < hi" by auto
    show ?thesis
    proof (cases "x < a ! ?mid")
      case lt: True
      from "1.IH"(1) [OF True lt] mid
      have "lo \<le> bisect_right a x lo ?mid \<and> bisect_right a x lo ?mid \<le> ?mid" by simp
      with True lt mid show ?thesis by (subst (1 2) bisect_right.simps) simp
    next
      case ge: False
      from "1.IH"(2) [OF True ge] mid
      have "?mid + 1 \<le> bisect_right a x (?mid + 1) hi \<and> bisect_right a x (?mid + 1) hi \<le> hi"
        by simp
      with True ge mid show ?thesis by (subst (1 2) bisect_right.simps) simp
    qed
  qed
qed

lemma bisect_le_length: "bisect a x \<le> length a"
  using bisect_right_bounds [of 0 "length a" a x] by (simp add: bisect_def)

lemma bisect_position_step_lt: "bisect position_step p < length quote_ladder"
  using bisect_le_length [of position_step p] by (simp add: position_step_def quote_ladder_def)

lemma quote_ladder_nonneg:
  "i < length quote_ladder \<Longrightarrow> 0 \<le> fst (quote_ladder ! i) \<and> 0 \<le> snd (quote_ladder ! i)"
proof -
  have "\<forall>x \<in> set quote_ladder. 0 \<le> fst x \<and> 0 \<le> snd x"
    by (simp add: quote_ladder_def risk_factor_def)
  then show "i < length quote_ladder \<Longrightarrow> 0 \<le> fst (quote_ladder ! i) \<and> 0 \<le> snd (quote_ladder ! i)"
    using nth_mem by blast
qed

lemma size_quotes_total:
  "\<exists>s'. size_quotes s = Inr s'
     \<and> position_interval s' = bisect position_step (position s)
     \<and> position_interval s' < length quote_ladder
     \<and> 0 \<le> bid_volume s' \<and> 0 \<le> ask_volume s'
     \<and> bid_volume s' + ask_volume s'
         \<le> fst (quote_ladder ! position_interval s') + snd (quote_ladder ! position_interval s')"
proof -
  let ?i = "bisect position_step (position s)"
  have i: "?i < length quote_ladder" by (rule bisect_position_step_lt)
  obtain b a where ba: "quote_ladder ! ?i = (b, a)" by (cases "quote_ladder ! ?i")
  from quote_ladder_nonneg [OF i] ba have nn: "0 \<le> b" "0 \<le> a" by simp_all
  from i ba nn show ?thesis
    by (simp add: size_quotes_def getitem_def Let_def)
qed

text \<open>
  Claim C7. Whatever the signed position is, the sizing step returns (it never raises),
  the bucket index it picks is inside the ladder, neither volume it leaves is negative,
  and the two volumes together are at most the two entries of the picked bucket together.
\<close>

theorem sizing_never_negative:
  "\<exists>s'. size_quotes s = Inr s'
     \<and> position_interval s' = bisect position_step (position s)
     \<and> position_interval s' < length quote_ladder
     \<and> 0 \<le> bid_volume s' \<and> 0 \<le> ask_volume s'
     \<and> bid_volume s' + ask_volume s'
         \<le> fst (quote_ladder ! position_interval s') + snd (quote_ladder ! position_interval s')"
  by (rule size_quotes_total)

lemma bisect_zero: "bisect position_step 0 = 6"
  by (simp add: bisect_def position_step_def bisect_right.simps)

lemma bisect_small_long: "1 \<le> p \<Longrightarrow> p \<le> 44 \<Longrightarrow> bisect position_step p = 7"
  by (simp add: bisect_def position_step_def bisect_right.simps)

lemma bisect_small_short: "- 44 \<le> p \<Longrightarrow> p \<le> - 1 \<Longrightarrow> bisect position_step p = 5"
  by (simp add: bisect_def position_step_def bisect_right.simps)

text \<open>
  Claim C2, as amended. At position 0 the sizing step picks bucket 6 of the ladder, which
  is (30, 30), and leaves 30 on each side. The bucket (49 - 4, 49 - 4) is bucket 7, picked
  for positions 1 to 44 (the bid is then 45 less the position), and bucket 5, picked for
  positions -44 to -1 (the ask is then 45 less the size of the position).
\<close>

theorem flat_position_bucket:
  "(position s = 0 \<longrightarrow>
      quote_ladder ! 6 = (30, 30) \<and>
      size_quotes s = Inr (s\<lparr>position_interval := 6, bid_volume := 30, ask_volume := 30\<rparr>))
   \<and> (1 \<le> position s \<and> position s \<le> 44 \<longrightarrow>
      quote_ladder ! 7 = (49 - risk_factor, 49 - risk_factor) \<and>
      size_quotes s =
        Inr (s\<lparr>position_interval := 7, bid_volume := 45 - position s, ask_volume := 45\<rparr>))
   \<and> (- 44 \<le> position s \<and> position s \<le> - 1 \<longrightarrow>
      quote_ladder ! 5 = (49 - risk_factor, 49 - risk_factor) \<and>
      size_quotes s =
        Inr (s\<lparr>position_interval := 5, bid_volume := 45, ask_volume := 45 + position s\<rparr>))"
  by (simp add: size_quotes_def getitem_def Let_def bisect_zero bisect_small_long
      bisect_small_short quote_ladder_def risk_factor_def)

text \<open>
  Claim C2 as stated fails: from the initial state, whose position is 0, the sizing step
  leaves a bid volume of 30, not 45, and the bucket it reads is not (45, 45).
\<close>

theorem flat_position_bucket_counterexample:
  "position init_engine = 0
   \<and> size_quotes init_engine =
       Inr (init_engine\<lparr>position_interval := 6, bid_volume := 30, ask_volume := 30\<rparr>)
   \<and> bid_volume (init_engine\<lparr>position_interval := 6, bid_volume := 30, ask_volume := 30\<rparr>) \<noteq> 45
   \<and> quote_ladder ! 6 \<noteq> (49 - risk_factor, 49 - risk_factor)"
  by (simp add: size_quotes_def getitem_def Let_def bisect_zero quote_ladder_def
      risk_factor_def init_engine_def)

theorem flat_position_bucket_witness:
  "size_quotes init_engine =
     Inr (init_engine\<lparr>position_interval := 6, bid_volume := 30, ask_volume := 30\<rparr>)
   \<and> size_quotes (init_engine\<lparr>position := 10\<rparr>) =
     Inr (init_engine\<lparr>position := 10, position_interval := 7, bid_volume := 35, ask_volume := 45\<rparr>)
   \<and> size_quotes (init_engine\<lparr>position := - 10\<rparr>) =
     Inr (init_engine\<lparr>position := - 10, position_interval := 5, bid_volume := 45, ask_volume := 35\<rparr>)"
  using flat_position_bucket [of init_engine]
    flat_position_bucket [of "init_engine\<lparr>position := 10\<rparr>"]
    flat_position_bucket [of "init_engine\<lparr>position := - 10\<rparr>"]
  by (simp add: init_engine_def)

lemma issued_ids_append [simp]: "issued_ids (xs @ ys) = issued_ids xs @ issued_ids ys"
  by (induction xs rule: issued_ids.induct) simp_all

lemma cancelled_ids_append [simp]: "cancelled_ids (xs @ ys) = cancelled_ids xs @ cancelled_ids ys"
  by (induction xs rule: cancelled_ids.induct) simp_all

subsection \<open>What each stage of the book update changes\<close>

lemma update_theo_cases:
  obtains (raises) e where "update_theo s ap av bp bv = Inl (e, s)"
      "theoretical_price ap av bp bv = Inl e" "0 \<notin> set bp" "action_count s \<le> 16"
  | (returns) p b a where
      "update_theo s ap av bp bv = Inr (s\<lparr>theo_price := p, new_bid_price := b, new_ask_price := a\<rparr>)"
      "if 0 \<notin> set bp \<and> action_count s \<le> 16
       then theoretical_price ap av bp bv = Inr p
         \<and> b = (if bp ! 0 \<noteq> 0 then p - 100 else 0)
         \<and> a = (if ap ! 0 \<noteq> 0 then p + 100 else 0)
       else p = theo_price s \<and> b = new_bid_price s \<and> a = new_ask_price s"
proof (cases "0 \<notin> set bp \<and> action_count s \<le> 16")
  case False
  then have "update_theo s ap av bp bv = Inr (s\<lparr>theo_price := theo_price s,
      new_bid_price := new_bid_price s, new_ask_price := new_ask_price s\<rparr>)"
    by (auto simp: update_theo_def)
  then show ?thesis using False by (intro returns) auto
next
  case True
  show ?thesis
  proof (cases "theoretical_price ap av bp bv")
    case (Inl e)
    with True have "update_theo s ap av bp bv = Inl (e, s)" by (simp add: update_theo_def)
    then show ?thesis using Inl True by (intro raises) auto
  next
    case (Inr p)
    with True have "update_theo s ap av bp bv = Inr (s\<lparr>theo_price := p,
        new_bid_price := (if bp ! 0 \<noteq> 0 then p - 100 else 0),
        new_ask_price := (if ap ! 0 \<noteq> 0 then p + 100 else 0)\<rparr>)"
      by (simp add: update_theo_def)
    then show ?thesis using Inr True by (intro returns) auto
  qed
qed

lemma size_quotes_returns:
  obtains b a where "size_quotes s =
     Inr (s\<lparr>position_interval := bisect position_step (position s), bid_volume := b, ask_volume := a\<rparr>)"
    and "0 \<le> b" and "0 \<le> a"
proof -
  from size_quotes_total [of s] obtain s' where s': "size_quotes s = Inr s'"
    and nn: "0 \<le> bid_volume s'" "0 \<le> ask_volume s'" by blast
  from s' have "s' = s\<lparr>position_interval := bisect position_step (position s),
      bid_volume := bid_volume s', ask_volume := ask_volume s'\<rparr>"
    by (auto simp: size_quotes_def Let_def split: sum.splits prod.splits)
  with s' nn that show ?thesis by metis
qed

lemma place_bid_cases:
  "place_bid s = s \<or>
   (bid_id s = 0 \<and> place_bid s = s\<lparr>bid_id := order_ids s, order_ids := order_ids s + 1,
      bid_price := new_bid_price s,
      sent := sent s @ [InsertOrder (order_ids s) BUY (new_bid_price s) (bid_volume s) GOOD_FOR_DAY],
      bids := insert (order_ids s) (bids s), action_count := action_count s + 1\<rparr>)"
  by (simp add: place_bid_def)

lemma place_ask_cases:
  "place_ask s = s \<or>
   (ask_id s = 0 \<and> place_ask s = s\<lparr>ask_id := order_ids s, order_ids := order_ids s + 1,
      ask_price := new_ask_price s,
      sent := sent s @ [InsertOrder (order_ids s) SELL (new_ask_price s) (ask_volume s) GOOD_FOR_DAY],
      asks := insert (order_ids s) (asks s), action_count := action_count s + 1\<rparr>)"
  by (simp add: place_ask_def)

subsection \<open>The action count and the target prices\<close>

lemma cancel_quotes_target_ok: "action_count s \<le> 16 \<Longrightarrow> target_ok (cancel_quotes s)"
  by (simp add: target_ok_def cancel_quotes_def cancel_bid_def cancel_ask_def)

lemma cancel_quotes_count:
  "action_count s \<le> action_count (cancel_quotes s)
   \<and> action_count (cancel_quotes s) \<le> action_count s + 2"
  by (simp add: cancel_quotes_def cancel_bid_def cancel_ask_def)

lemma place_target_ok: "target_ok s \<Longrightarrow> target_ok (place_ask (place_bid s))"
  using place_bid_cases [of s] place_ask_cases [of "place_bid s"]
  by (auto simp: target_ok_def)

lemma place_count:
  "action_count s \<le> action_count (place_ask (place_bid s))
   \<and> action_count (place_ask (place_bid s)) \<le> action_count s + 2"
  using place_bid_cases [of s] place_ask_cases [of "place_bid s"] by auto

lemma reset_action_count_quote_inv: "target_ok s \<Longrightarrow> quote_inv (reset_action_count now s)"
  by (simp add: quote_inv_def target_ok_def reset_action_count_def Let_def)

lemma book_update_cases [consumes 1, case_names raises quotes resets]:
  assumes "i = Instrument_FUTURE rtg"
  obtains
    (raises) e where
      "on_order_book_update_message rtg clock s i n ap av bp bv = Inl (e, mark_start (fst clock) s)"
      "theoretical_price ap av bp bv = Inl e" "0 \<notin> set bp" "action_count s \<le> 16"
  | (quotes) p b a vb va s2 where
      "s2 = cancel_quotes (mark_start (fst clock) s\<lparr>theo_price := p, new_bid_price := b, new_ask_price := a\<rparr>)"
      "update_theo (mark_start (fst clock) s) ap av bp bv =
         Inr (mark_start (fst clock) s\<lparr>theo_price := p, new_bid_price := b, new_ask_price := a\<rparr>)"
      "action_count s2 \<le> 14" "0 \<le> vb" "0 \<le> va"
      "size_quotes s2 = Inr (s2\<lparr>position_interval := bisect position_step (position s2),
            bid_volume := vb, ask_volume := va\<rparr>)"
      "on_order_book_update_message rtg clock s i n ap av bp bv =
         Inr (place_ask (place_bid (s2\<lparr>position_interval := bisect position_step (position s2),
            bid_volume := vb, ask_volume := va\<rparr>)))"
      "if 0 \<notin> set bp \<and> action_count s \<le> 16
       then theoretical_price ap av bp bv = Inr p
         \<and> b = (if bp ! 0 \<noteq> 0 then p - 100 else 0)
         \<and> a = (if ap ! 0 \<noteq> 0 then p + 100 else 0)
       else p = theo_price s \<and> b = new_bid_price s \<and> a = new_ask_price s"
  | (resets) p b a s2 where
      "s2 = cancel_quotes (mark_start (fst clock) s\<lparr>theo_price := p, new_bid_price := b, new_ask_price := a\<rparr>)"
      "update_theo (mark_start (fst clock) s) ap av bp bv =
         Inr (mark_start (fst clock) s\<lparr>theo_price := p, new_bid_price := b, new_ask_price := a\<rparr>)"
      "14 < action_count s2"
      "on_order_book_update_message rtg clock s i n ap av bp bv =
         Inr (reset_action_count (snd clock) s2)"
      "if 0 \<notin> set bp \<and> action_count s \<le> 16
       then theoretical_price ap av bp bv = Inr p
         \<and> b = (if bp ! 0 \<noteq> 0 then p - 100 else 0)
         \<and> a = (if ap ! 0 \<noteq> 0 then p + 100 else 0)
       else p = theo_price s \<and> b = new_bid_price s \<and> a = new_ask_price s"
proof (cases rule: update_theo_cases [of "mark_start (fst clock) s" ap av bp bv])
  case (raises e)
  with assms have "on_order_book_update_message rtg clock s i n ap av bp bv =
      Inl (e, mark_start (fst clock) s)"
    by (simp add: on_order_book_update_message_def)
  then show ?thesis using raises(2-4)
    by (intro that(1)) (auto simp: mark_start_def split: if_splits)
next
  case (returns p b a)
  define s2 where "s2 = cancel_quotes
      (mark_start (fst clock) s\<lparr>theo_price := p, new_bid_price := b, new_ask_price := a\<rparr>)"
  have ms: "action_count (mark_start (fst clock) s) = action_count s"
    "theo_price (mark_start (fst clock) s) = theo_price s"
    "new_bid_price (mark_start (fst clock) s) = new_bid_price s"
    "new_ask_price (mark_start (fst clock) s) = new_ask_price s"
    by (simp_all add: mark_start_def)
  note theo = returns(2) [unfolded ms]
  show ?thesis
  proof (cases "action_count s2 \<le> 14")
    case True
    obtain vb va where sz: "size_quotes s2 = Inr (s2\<lparr>position_interval :=
        bisect position_step (position s2), bid_volume := vb, ask_volume := va\<rparr>)"
      and nn: "0 \<le> vb" "0 \<le> va"
      by (rule size_quotes_returns)
    from assms returns(1) True sz
    have "on_order_book_update_message rtg clock s i n ap av bp bv =
        Inr (place_ask (place_bid (s2\<lparr>position_interval := bisect position_step (position s2),
            bid_volume := vb, ask_volume := va\<rparr>)))"
      by (simp add: on_order_book_update_message_def Let_def s2_def)
    with s2_def returns(1) True nn sz show ?thesis using theo by (rule that(2))
  next
    case False
    with assms returns(1)
    have "on_order_book_update_message rtg clock s i n ap av bp bv =
        Inr (reset_action_count (snd clock) s2)"
      by (simp add: on_order_book_update_message_def Let_def s2_def)
    moreover from False have "14 < action_count s2" by simp
    ultimately show ?thesis using s2_def returns(1) theo by (intro that(3))
  qed
qed

lemma mark_start_quote_inv [simp]: "quote_inv (mark_start now s) = quote_inv s"
  by (simp add: mark_start_def quote_inv_def target_ok_def)

lemma mark_start_action_count [simp]: "action_count (mark_start now s) = action_count s"
  by (simp add: mark_start_def)

lemma quote_inv_book:
  assumes "quote_inv s"
  shows "quote_inv (state_after (on_order_book_update_message rtg clock s i n ap av bp bv))"
proof (cases "i = Instrument_FUTURE rtg")
  case False
  with assms show ?thesis by (simp add: on_order_book_update_message_def)
next
  case True
  from assms have c0: "action_count s \<le> 16" by (simp add: quote_inv_def)
  from True show ?thesis
  proof (cases rule: book_update_cases [where clock = clock and s = s and n = n
        and ap = ap and av = av and bp = bp and bv = bv])
    case (raises e)
    with assms show ?thesis by simp
  next
    case (quotes p b a vb va s2)
    from c0 have "target_ok s2" unfolding quotes(1)
      by (intro cancel_quotes_target_ok) simp
    then have "target_ok (s2\<lparr>position_interval := bisect position_step (position s2),
            bid_volume := vb, ask_volume := va\<rparr>)" (is "target_ok ?s3")
      by (simp add: target_ok_def)
    then have "target_ok (place_ask (place_bid ?s3))" by (rule place_target_ok)
    moreover from place_count [of ?s3] quotes(3)
    have "action_count (place_ask (place_bid ?s3)) \<le> 16" by simp
    ultimately show ?thesis using quotes(7) by (simp add: quote_inv_def)
  next
    case (resets p b a s2)
    from c0 have "target_ok s2" unfolding resets(1)
      by (intro cancel_quotes_target_ok) simp
    then show ?thesis using resets(4) by (simp add: reset_action_count_quote_inv)
  qed
qed

lemma quote_inv_status: "quote_inv s \<Longrightarrow> quote_inv (on_order_status_message s c f r fees)"
  by (simp add: on_order_status_message_def quote_inv_def target_ok_def Let_def)

lemma quote_inv_filled: "quote_inv s \<Longrightarrow> quote_inv (on_order_filled_message rtg s c p v)"
  by (simp add: on_order_filled_message_def quote_inv_def target_ok_def)

lemma on_error_message_cases:
  "on_error_message s c m = Inl (UnicodeDecodeError, s)
   \<or> on_error_message s c m = Inr (on_order_status_message s c 0 0 0)"
  by (simp add: on_error_message_def decode_def)

lemma quote_inv_handle: "quote_inv s \<Longrightarrow> quote_inv (state_after (handle rtg s ev))"
proof (cases ev)
  case (ErrorMessage c m)
  assume "quote_inv s"
  with on_error_message_cases [of s c m] ErrorMessage show ?thesis
    by (auto simp: quote_inv_status)
qed (simp_all add: quote_inv_book quote_inv_status quote_inv_filled on_trade_ticks_message_def)

lemma quote_inv_run: "quote_inv s \<Longrightarrow> quote_inv (run rtg s evs)"
  by (induction evs arbitrary: s) (simp_all add: quote_inv_handle)

lemma quote_inv_init: "quote_inv init_engine"
  by (simp add: quote_inv_def target_ok_def init_engine_def)

subsection \<open>Order ids\<close>

lemma ids_inv_frame [simp]:
  "ids_inv (s\<lparr>theo_price := p\<rparr>) = ids_inv s"
  "ids_inv (s\<lparr>new_bid_price := b\<rparr>) = ids_inv s"
  "ids_inv (s\<lparr>new_ask_price := a\<rparr>) = ids_inv s"
  "ids_inv (s\<lparr>position_interval := k\<rparr>) = ids_inv s"
  "ids_inv (s\<lparr>bid_volume := vb\<rparr>) = ids_inv s"
  "ids_inv (s\<lparr>ask_volume := va\<rparr>) = ids_inv s"
  "ids_inv (s\<lparr>start_second := t\<rparr>) = ids_inv s"
  "ids_inv (s\<lparr>position := q\<rparr>) = ids_inv s"
  by (simp_all add: ids_inv_def)

lemma ids_inv_mark_start [simp]: "ids_inv (mark_start now s) = ids_inv s"
  by (simp add: mark_start_def)

lemma ids_inv_cancel_quotes: "ids_inv s \<Longrightarrow> ids_inv (cancel_quotes s)"
  by (simp add: ids_inv_def cancel_quotes_def cancel_bid_def cancel_ask_def)

lemma upto_snoc_counter: "1 \<le> k \<Longrightarrow> [1..k - 1] @ [k] = [1..k]"
  by (simp add: upto_rec2 [of 1 k])

lemma ids_inv_place_bid: "ids_inv s \<Longrightarrow> ids_inv (place_bid s)"
  using place_bid_cases [of s]
  by (fastforce simp: ids_inv_def upto_snoc_counter)

lemma ids_inv_place_ask: "ids_inv s \<Longrightarrow> ids_inv (place_ask s)"
  using place_ask_cases [of s]
  by (fastforce simp: ids_inv_def upto_snoc_counter)

lemma ids_inv_reset: "ids_inv s \<Longrightarrow> ids_inv (reset_action_count now s)"
  by (simp add: ids_inv_def reset_action_count_def Let_def)

lemma ids_inv_book:
  assumes "ids_inv s"
  shows "ids_inv (state_after (on_order_book_update_message rtg clock s i n ap av bp bv))"
proof (cases "i = Instrument_FUTURE rtg")
  case False
  with assms show ?thesis by (simp add: on_order_book_update_message_def)
next
  case True
  then show ?thesis
  proof (cases rule: book_update_cases [where clock = clock and s = s and n = n
        and ap = ap and av = av and bp = bp and bv = bv])
    case (raises e)
    with assms show ?thesis by simp
  next
    case (quotes p b a vb va s2)
    from assms have "ids_inv s2" unfolding quotes(1) by (intro ids_inv_cancel_quotes) simp
    then show ?thesis using quotes(7) by (simp add: ids_inv_place_ask ids_inv_place_bid)
  next
    case (resets p b a s2)
    from assms have "ids_inv s2" unfolding resets(1) by (intro ids_inv_cancel_quotes) simp
    then show ?thesis using resets(4) by (simp add: ids_inv_reset)
  qed
qed

lemma ids_inv_status: "ids_inv s \<Longrightarrow> ids_inv (on_order_status_message s c f r fees)"
  by (auto simp: on_order_status_message_def ids_inv_def Let_def)

lemma ids_inv_filled: "ids_inv s \<Longrightarrow> ids_inv (on_order_filled_message rtg s c p v)"
  by (fastforce simp: on_order_filled_message_def ids_inv_def upto_snoc_counter)

lemma ids_inv_handle: "ids_inv s \<Longrightarrow> ids_inv (state_after (handle rtg s ev))"
proof (cases ev)
  case (ErrorMessage c m)
  assume "ids_inv s"
  with on_error_message_cases [of s c m] ErrorMessage show ?thesis
    by (auto simp: ids_inv_status)
qed (simp_all add: ids_inv_book ids_inv_status ids_inv_filled on_trade_ticks_message_def)

lemma ids_inv_run: "ids_inv s \<Longrightarrow> ids_inv (run rtg s evs)"
  by (induction evs arbitrary: s) (simp_all add: ids_inv_handle)

lemma ids_inv_init: "ids_inv init_engine"
  by (simp add: ids_inv_def init_engine_def)

text \<open>
  Claim C6. After any sequence of events from the initial state, the ids of the inserts
  and hedges the trader has sent are, in the order of sending, exactly 1, 2, ... up to the
  last value taken from the one counter \<open>order_ids\<close>: they increase strictly and no id
  occurs twice, whether it went to a bid, an ask or a hedge.
\<close>

theorem order_ids_increasing:
  "issued_ids (sent (run rtg init_engine evs)) = [1..order_ids (run rtg init_engine evs) - 1]
   \<and> sorted_wrt (<) (issued_ids (sent (run rtg init_engine evs)))
   \<and> distinct (issued_ids (sent (run rtg init_engine evs)))"
proof -
  from ids_inv_run [OF ids_inv_init, of rtg evs]
  have "issued_ids (sent (run rtg init_engine evs)) = [1..order_ids (run rtg init_engine evs) - 1]"
    by (simp add: ids_inv_def)
  then show ?thesis by simp
qed

subsection \<open>Running the model on concrete values\<close>

lemma ilog2_numeral [simp]:
  "ilog2 (numeral k) = (if (numeral k :: int) < 2 then 0 else 1 + ilog2 (numeral k div 2))"
  by (rule ilog2.simps)

lemma ilog2_0 [simp]: "ilog2 0 = 0"
  by (simp add: ilog2.simps)

lemma ilog2_1 [simp]: "ilog2 1 = 0"
  by (simp add: ilog2.simps)

lemmas float_eval = roundd_def flog2_def pow2_def rnd_even_def Let_def trunc_real_def
  float_of_int_def int_mul_float_def truediv_def l0_w_def l1_w_def getitem_def

lemma l0_w_nearest: "roundd (35 / 100) = l0_w"
  by (simp add: float_eval)

lemma l1_w_nearest: "roundd (65 / 100) = l1_w"
  by (simp add: float_eval)

lemma sleep_base_nearest: "roundd (101 / 100) = sleep_base"
  by (simp add: float_eval sleep_base_def)

lemma book1_numerator:
  "theo_numerator [10100, 10200, 10300, 10400, 10500] [10, 27, 30, 40, 50]
     [9900, 9800, 9700, 9600, 9500] [13, 20, 30, 40, 50] = Inr (Fl 386805)"
  by (simp add: theo_numerator_def float_eval)

lemma book1_denominator:
  "theo_denominator [10, 27, 30, 40, 50] [13, 20, 30, 40, 50]
     = Inr (Fl (5432467050515661 / 140737488355328))"
  by (simp add: theo_denominator_def float_eval)

lemma book1_theoretical_price:
  "theoretical_price [10100, 10200, 10300, 10400, 10500] [10, 27, 30, 40, 50]
     [9900, 9800, 9700, 9600, 9500] [13, 20, 30, 40, 50] = Inr 10000"
  by (simp add: theoretical_price_def book1_numerator book1_denominator float_eval)

lemma run_book1: "run rtg0 init_engine [book1] = quoting"
  by (simp add: book1_def rtg0_def on_order_book_update_message_def mark_start_def
      update_theo_def book1_theoretical_price cancel_quotes_def cancel_bid_def cancel_ask_def
      size_quotes_def bisect_zero getitem_def quote_ladder_def place_bid_def place_ask_def
      init_engine_def quoting_def Let_def)

subsection \<open>Fills\<close>

lemma run_snoc: "run rtg s (evs @ [ev]) = state_after (handle rtg (run rtg s evs) ev)"
  by (induction evs arbitrary: s) simp_all

text \<open>
  Claim C8. In any state a run from the initial state reaches, a fill of volume \<open>v\<close> on
  an order in the bid set adds \<open>v\<close> to the position and sends at once one hedge: a sell of
  \<open>v\<close> lots at \<open>MIN_BID_NEAREST_TICK\<close>, under the next id of the counter. A fill on an
  order in the ask set takes \<open>v\<close> from the position and sends a buy of \<open>v\<close> lots at
  \<open>MAX_ASK_NEAREST_TICK\<close>. Nothing else changes.
\<close>

theorem fill_moves_position_and_hedges:
  assumes "s = run rtg init_engine evs"
  shows "(c \<in> bids s \<longrightarrow>
           on_order_filled_message rtg s c p v =
             s\<lparr>position := position s + v, order_ids := order_ids s + 1,
               sent := sent s @ [HedgeOrder (order_ids s) SELL (MIN_BID_NEAREST_TICK rtg) v]\<rparr>)
       \<and> (c \<in> asks s \<longrightarrow>
           on_order_filled_message rtg s c p v =
             s\<lparr>position := position s - v, order_ids := order_ids s + 1,
               sent := sent s @ [HedgeOrder (order_ids s) BUY (MAX_ASK_NEAREST_TICK rtg) v]\<rparr>)"
proof -
  from assms ids_inv_run [OF ids_inv_init, of rtg evs] have "ids_inv s" by simp
  then have "c \<in> asks s \<Longrightarrow> c \<notin> bids s" by (auto simp: ids_inv_def)
  then show ?thesis by (auto simp: on_order_filled_message_def ASK_def BID_def)
qed

theorem fill_moves_position_and_hedges_witness:
  "on_order_filled_message rtg0 quoting 1 9900 10 =
     quoting\<lparr>position := 10, order_ids := 4,
       sent := [InsertOrder 1 BUY 9900 30 GOOD_FOR_DAY, InsertOrder 2 SELL 10100 30 GOOD_FOR_DAY,
                HedgeOrder 3 SELL 100 10]\<rparr>
   \<and> on_order_filled_message rtg0 quoting 2 10100 10 =
     quoting\<lparr>position := - 10, order_ids := 4,
       sent := [InsertOrder 1 BUY 9900 30 GOOD_FOR_DAY, InsertOrder 2 SELL 10100 30 GOOD_FOR_DAY,
                HedgeOrder 3 BUY 2147483600 10]\<rparr>"
proof -
  have q: "quoting = run rtg0 init_engine [book1]" by (simp only: run_book1)
  show ?thesis
    using fill_moves_position_and_hedges [OF q, of 1 9900 10]
      fill_moves_position_and_hedges [OF q, of 2 10100 10]
    by (simp add: quoting_def init_engine_def MIN_BID_NEAREST_TICK_def
        MAX_ASK_NEAREST_TICK_def TICK_SIZE_IN_CENTS_def rtg0_def)
qed

text \<open>
  Claim C10. A fill for an order id that is in neither the bid set nor the ask set leaves
  the whole state as it was: the position is the same and nothing is sent.
\<close>

theorem untracked_fill_changes_nothing:
  "c \<notin> bids s \<Longrightarrow> c \<notin> asks s \<Longrightarrow> on_order_filled_message rtg s c p v = s"
  by (simp add: on_order_filled_message_def)

theorem untracked_fill_changes_nothing_witness:
  "on_order_filled_message rtg0 quoting 3 100 10 = quoting"
  using untracked_fill_changes_nothing [of 3 quoting rtg0 100 10]
  by (simp add: quoting_def init_engine_def)

subsection \<open>Errors\<close>

lemma on_order_status_message_closed:
  "on_order_status_message s c f 0 fees =
     s\<lparr>bid_id := (if c = bid_id s then 0 else bid_id s),
       ask_id := (if c \<noteq> bid_id s \<and> c = ask_id s then 0 else ask_id s),
       bids := bids s - {c}, asks := asks s - {c}\<rparr>"
  by (simp add: on_order_status_message_def Let_def)

lemma on_error_message_decoded:
  "decode m = Inr () \<Longrightarrow> on_error_message s c m = Inr (on_order_status_message s c 0 0 0)"
  by (simp add: on_error_message_def)

text \<open>
  Claim C9 at the error message that is the one byte \<open>0xFF\<close>, for the working bid
  (order 1) of the state \<open>quoting\<close>: the handler raises UnicodeDecodeError and leaves the
  bid working, where the order status with remaining volume 0 resets it.
\<close>

theorem error_message_undecodable:
  "on_error_message quoting 1 [CHR 0xFF] = Inl (UnicodeDecodeError, quoting)
   \<and> bid_id quoting = 1
   \<and> on_order_status_message quoting 1 0 0 0 = quoting\<lparr>bid_id := 0, bids := {}\<rparr>"
  by (simp add: on_error_message_def decode_def on_order_status_message_def quoting_def
      init_engine_def Let_def)

subsection \<open>Cancels\<close>

lemma sleeps_append [simp]: "sleeps (xs @ ys) = sleeps xs @ sleeps ys"
  by (induction xs rule: sleeps.induct) simp_all

lemma emitted_append [simp]: "sent s' = sent s @ xs \<Longrightarrow> emitted s s' = xs"
  by (simp add: emitted_def)

lemma emitted_same [simp]: "sent s' = sent s \<Longrightarrow> emitted s s' = []"
  by (simp add: emitted_def)

lemma sent_mark_start [simp]: "sent (mark_start now s) = sent s"
  by (simp add: mark_start_def)

lemma sent_cancel_quotes:
  "action_count s \<le> 16 \<Longrightarrow>
   sent (cancel_quotes s) = sent s
     @ (if bid_id s \<noteq> 0 \<and> new_bid_price s \<noteq> bid_price s \<and> new_bid_price s \<noteq> 0
        then [CancelOrder (bid_id s)] else [])
     @ (if ask_id s \<noteq> 0 \<and> new_ask_price s \<noteq> ask_price s \<and> new_ask_price s \<noteq> 0
        then [CancelOrder (ask_id s)] else [])"
  by (simp add: cancel_quotes_def cancel_bid_def cancel_ask_def)

lemma cancel_quotes_targets [simp]:
  "new_bid_price (cancel_quotes s) = new_bid_price s"
  "new_ask_price (cancel_quotes s) = new_ask_price s"
  by (simp_all add: cancel_quotes_def cancel_bid_def cancel_ask_def)

lemma sent_place:
  "\<exists>xs. sent (place_ask (place_bid s)) = sent s @ xs \<and> cancelled_ids xs = [] \<and> sleeps xs = []"
  using place_bid_cases [of s] place_ask_cases [of "place_bid s"] by auto

lemma place_targets [simp]:
  "new_bid_price (place_ask (place_bid s)) = new_bid_price s"
  "new_ask_price (place_ask (place_bid s)) = new_ask_price s"
  using place_bid_cases [of s] place_ask_cases [of "place_bid s"] by auto

lemma sent_reset:
  "sent (reset_action_count now s) = sent s
     @ (if float_lt_int (fsub now (start_second s)) 1
        then [Sleep (fsub sleep_base (fsub now (start_second s)))] else [])"
  by (simp add: reset_action_count_def Let_def)

lemma reset_targets [simp]:
  "new_bid_price (reset_action_count now s) = new_bid_price s"
  "new_ask_price (reset_action_count now s) = new_ask_price s"
  by (simp_all add: reset_action_count_def Let_def)

lemma mark_start_fields [simp]:
  "bid_id (mark_start now s) = bid_id s" "ask_id (mark_start now s) = ask_id s"
  "bid_price (mark_start now s) = bid_price s" "ask_price (mark_start now s) = ask_price s"
  "new_bid_price (mark_start now s) = new_bid_price s"
  "new_ask_price (mark_start now s) = new_ask_price s"
  by (simp_all add: mark_start_def)

lemma book_cancels:
  assumes inv: "quote_inv s"
    and s': "s' = state_after (on_order_book_update_message rtg clock s i n ap av bp bv)"
  shows "cancelled_ids (emitted s s') =
      (if bid_id s \<noteq> 0 \<and> new_bid_price s' \<noteq> bid_price s \<and> new_bid_price s' \<noteq> 0
       then [bid_id s] else [])
    @ (if ask_id s \<noteq> 0 \<and> new_ask_price s' \<noteq> ask_price s \<and> new_ask_price s' \<noteq> 0
       then [ask_id s] else [])"
proof (cases "i = Instrument_FUTURE rtg")
  case False
  with s' have "s' = s" by (simp add: on_order_book_update_message_def)
  with inv show ?thesis by (auto simp: quote_inv_def target_ok_def)
next
  case True
  from inv have c0: "action_count s \<le> 16" by (simp add: quote_inv_def)
  from True show ?thesis
  proof (cases rule: book_update_cases [where clock = clock and s = s and n = n
        and ap = ap and av = av and bp = bp and bv = bv])
    case (raises e)
    with s' have "s' = mark_start (fst clock) s" by simp
    with inv show ?thesis by (auto simp: quote_inv_def target_ok_def)
  next
    case (quotes p b a vb va s2)
    let ?s3 = "s2\<lparr>position_interval := bisect position_step (position s2),
        bid_volume := vb, ask_volume := va\<rparr>"
    from sent_place [of ?s3] obtain xs where
      xs: "sent (place_ask (place_bid ?s3)) = sent s2 @ xs" "cancelled_ids xs = []" by auto
    from quotes(7) s' have s'_eq: "s' = place_ask (place_bid ?s3)" by simp
    have tb: "new_bid_price s' = b" and ta: "new_ask_price s' = a"
      by (simp_all add: s'_eq quotes(1))
    from c0 have "sent s2 = sent s
       @ (if bid_id s \<noteq> 0 \<and> b \<noteq> bid_price s \<and> b \<noteq> 0 then [CancelOrder (bid_id s)] else [])
       @ (if ask_id s \<noteq> 0 \<and> a \<noteq> ask_price s \<and> a \<noteq> 0 then [CancelOrder (ask_id s)] else [])"
      unfolding quotes(1) by (subst sent_cancel_quotes) simp_all
    with xs s'_eq have "emitted s s' =
         (if bid_id s \<noteq> 0 \<and> b \<noteq> bid_price s \<and> b \<noteq> 0 then [CancelOrder (bid_id s)] else [])
       @ (if ask_id s \<noteq> 0 \<and> a \<noteq> ask_price s \<and> a \<noteq> 0 then [CancelOrder (ask_id s)] else [])
       @ xs"
      by (intro emitted_append) simp
    with xs(2) tb ta show ?thesis by simp
  next
    case (resets p b a s2)
    from resets(4) s' have s'_eq: "s' = reset_action_count (snd clock) s2" by simp
    have tb: "new_bid_price s' = b" and ta: "new_ask_price s' = a"
      by (simp_all add: s'_eq resets(1))
    from c0 have "sent s2 = sent s
       @ (if bid_id s \<noteq> 0 \<and> b \<noteq> bid_price s \<and> b \<noteq> 0 then [CancelOrder (bid_id s)] else [])
       @ (if ask_id s \<noteq> 0 \<and> a \<noteq> ask_price s \<and> a \<noteq> 0 then [CancelOrder (ask_id s)] else [])"
      unfolding resets(1) by (subst sent_cancel_quotes) simp_all
    then have "emitted s s' =
         (if bid_id s \<noteq> 0 \<and> b \<noteq> bid_price s \<and> b \<noteq> 0 then [CancelOrder (bid_id s)] else [])
       @ (if ask_id s \<noteq> 0 \<and> a \<noteq> ask_price s \<and> a \<noteq> 0 then [CancelOrder (ask_id s)] else [])
       @ (if float_lt_int (fsub (snd clock) (start_second s2)) 1
          then [Sleep (fsub sleep_base (fsub (snd clock) (start_second s2)))] else [])"
      unfolding s'_eq by (intro emitted_append) (simp add: sent_reset)
    with tb ta show ?thesis by simp
  qed
qed

lemma book_no_cancel_when_targets_stay:
  assumes inv: "quote_inv s"
    and s': "s' = state_after (on_order_book_update_message rtg clock s i n ap av bp bv)"
    and same: "new_bid_price s' = new_bid_price s" "new_ask_price s' = new_ask_price s"
  shows "cancelled_ids (emitted s s') = []"
  using inv same unfolding book_cancels [OF inv s']
  by (auto simp: quote_inv_def target_ok_def)

lemma cancel_in_emitted: "CancelOrder c \<in> set xs \<longleftrightarrow> c \<in> set (cancelled_ids xs)"
  by (induction xs rule: cancelled_ids.induct) auto

lemma sent_grows_book:
  "\<exists>xs. sent (state_after (on_order_book_update_message rtg clock s i n ap av bp bv)) = sent s @ xs"
proof (cases "i = Instrument_FUTURE rtg")
  case False
  then show ?thesis by (simp add: on_order_book_update_message_def)
next
  case True
  have cq: "\<exists>xs. sent (cancel_quotes t) = sent t @ xs" for t
    by (simp add: cancel_quotes_def cancel_bid_def cancel_ask_def)
  from True show ?thesis
  proof (cases rule: book_update_cases [where clock = clock and s = s and n = n
        and ap = ap and av = av and bp = bp and bv = bv])
    case (raises e)
    then show ?thesis by simp
  next
    case (quotes p b a vb va s2)
    let ?s3 = "s2\<lparr>position_interval := bisect position_step (position s2),
        bid_volume := vb, ask_volume := va\<rparr>"
    from sent_place [of ?s3] obtain xs where "sent (place_ask (place_bid ?s3)) = sent s2 @ xs"
      by auto
    moreover from cq [of "mark_start (fst clock) s\<lparr>theo_price := p, new_bid_price := b,
        new_ask_price := a\<rparr>"]
    obtain ys where "sent s2 = sent s @ ys" unfolding quotes(1) by auto
    ultimately show ?thesis using quotes(7) by simp
  next
    case (resets p b a s2)
    from cq [of "mark_start (fst clock) s\<lparr>theo_price := p, new_bid_price := b,
        new_ask_price := a\<rparr>"]
    obtain ys where "sent s2 = sent s @ ys" unfolding resets(1) by auto
    then show ?thesis using resets(4) by (simp add: sent_reset)
  qed
qed

lemma sent_grows: "\<exists>xs. sent (state_after (handle rtg s ev)) = sent s @ xs"
proof (cases ev)
  case (OrderBookUpdate clock i n ap av bp bv)
  then show ?thesis using sent_grows_book by simp
next
  case (ErrorMessage c m)
  with on_error_message_cases [of s c m] show ?thesis
    by (auto simp: on_order_status_message_def Let_def)
qed (simp_all add: on_order_status_message_def on_order_filled_message_def
    on_trade_ticks_message_def Let_def)

lemma run_sent_grows: "\<exists>xs. sent (run rtg s evs) = sent s @ xs"
proof (induction evs arbitrary: s)
  case Nil
  show ?case by simp
next
  case (Cons ev evs)
  from sent_grows obtain xs where "sent (state_after (handle rtg s ev)) = sent s @ xs" by blast
  moreover from Cons.IH obtain ys where
    "sent (run rtg (state_after (handle rtg s ev)) evs) = sent (state_after (handle rtg s ev)) @ ys"
    by blast
  ultimately show ?case by simp
qed

lemma emitted_trans:
  assumes "sent s1 = sent s @ xs" and "sent s2 = sent s1 @ ys"
  shows "emitted s s2 = emitted s s1 @ emitted s1 s2"
  using assms by (simp add: emitted_def)

lemma steady_books_no_cancel:
  assumes "quote_inv s" and "list_all is_book bs"
    and "targets_stay rtg (new_bid_price s, new_ask_price s) s bs"
  shows "cancelled_ids (emitted s (run rtg s bs)) = []"
  using assms
proof (induction bs arbitrary: s)
  case Nil
  show ?case by (simp add: emitted_def)
next
  case (Cons ev bs)
  from Cons.prems(2) obtain clock i n ap av bp bv
    where ev: "ev = OrderBookUpdate clock i n ap av bp bv" and bs: "list_all is_book bs"
    by (cases ev) simp_all
  define s1 where "s1 = state_after (handle rtg s ev)"
  from Cons.prems(3) have same: "new_bid_price s1 = new_bid_price s" "new_ask_price s1 = new_ask_price s"
    and rest: "targets_stay rtg (new_bid_price s1, new_ask_price s1) s1 bs"
    by (simp_all add: s1_def)
  have inv1: "quote_inv s1" unfolding s1_def using Cons.prems(1) by (rule quote_inv_handle)
  have step: "cancelled_ids (emitted s s1) = []"
    using Cons.prems(1) _ same
    by (rule book_no_cancel_when_targets_stay) (simp add: s1_def ev)
  have tail: "cancelled_ids (emitted s1 (run rtg s1 bs)) = []"
    using inv1 bs rest by (rule Cons.IH)
  from sent_grows obtain xs where xs: "sent s1 = sent s @ xs" unfolding s1_def by blast
  from run_sent_grows obtain ys where ys: "sent (run rtg s1 bs) = sent s1 @ ys" by blast
  have "emitted s (run rtg s1 bs) = emitted s s1 @ emitted s1 (run rtg s1 bs)"
    using xs ys by (rule emitted_trans)
  with step tail show ?case by (simp add: s1_def)
qed

text \<open>
  Claim C5, as amended. Take any state \<open>s\<close> a run from the initial state reaches, and the
  state \<open>s'\<close> after one more book update (of any instrument, returning or raising). The bid
  is cancelled in that update exactly when it is working, the target bid price after the
  update differs from the price it rests at, and that target is not 0; the same for the
  ask; and these are all the cancels of the update, the bid's first. So over any further
  sequence of book updates after each of which the two target prices are what they were
  in \<open>s\<close>, no cancel is sent at all.
\<close>

theorem cancel_only_on_price_change:
  assumes "s = run rtg init_engine evs"
    and "s' = state_after (on_order_book_update_message rtg clock s i n ap av bp bv)"
  shows "(CancelOrder (bid_id s) \<in> set (emitted s s') \<longleftrightarrow>
            bid_id s \<noteq> 0 \<and> new_bid_price s' \<noteq> bid_price s \<and> new_bid_price s' \<noteq> 0)
       \<and> (CancelOrder (ask_id s) \<in> set (emitted s s') \<longleftrightarrow>
            ask_id s \<noteq> 0 \<and> new_ask_price s' \<noteq> ask_price s \<and> new_ask_price s' \<noteq> 0)
       \<and> cancelled_ids (emitted s s') =
            (if bid_id s \<noteq> 0 \<and> new_bid_price s' \<noteq> bid_price s \<and> new_bid_price s' \<noteq> 0
             then [bid_id s] else [])
          @ (if ask_id s \<noteq> 0 \<and> new_ask_price s' \<noteq> ask_price s \<and> new_ask_price s' \<noteq> 0
             then [ask_id s] else [])
       \<and> (list_all is_book bs
            \<and> targets_stay rtg (new_bid_price s, new_ask_price s) s bs
          \<longrightarrow> cancelled_ids (emitted s (run rtg s bs)) = [])"
proof -
  from assms(1) have inv: "quote_inv s" by (simp add: quote_inv_run quote_inv_init)
  from assms(1) have ids: "ids_inv s" by (simp add: ids_inv_run ids_inv_init)
  then have apart: "bid_id s \<noteq> 0 \<Longrightarrow> bid_id s \<noteq> ask_id s"
    by (auto simp: ids_inv_def)
  note eq = book_cancels [OF inv assms(2)]
  have bid: "CancelOrder (bid_id s) \<in> set (emitted s s') \<longleftrightarrow>
            bid_id s \<noteq> 0 \<and> new_bid_price s' \<noteq> bid_price s \<and> new_bid_price s' \<noteq> 0"
    unfolding cancel_in_emitted eq using apart by auto
  have ask: "CancelOrder (ask_id s) \<in> set (emitted s s') \<longleftrightarrow>
            ask_id s \<noteq> 0 \<and> new_ask_price s' \<noteq> ask_price s \<and> new_ask_price s' \<noteq> 0"
    unfolding cancel_in_emitted eq using apart by auto
  from bid ask eq steady_books_no_cancel [OF inv] show ?thesis by blast
qed

lemma book2_numerator:
  "theo_numerator [10200, 10300, 10400, 10500, 10600] [10, 27, 30, 40, 50]
     [10000, 9900, 9800, 9700, 9600] [13, 20, 30, 40, 50] = Inr (Fl 390665)"
  by (simp add: theo_numerator_def float_eval)

lemma book2_theoretical_price:
  "theoretical_price [10200, 10300, 10400, 10500, 10600] [10, 27, 30, 40, 50]
     [10000, 9900, 9800, 9700, 9600] [13, 20, 30, 40, 50] = Inr 10100"
  by (simp add: theoretical_price_def book2_numerator book1_denominator float_eval)

lemmas book_eval = on_order_book_update_message_def mark_start_def
  update_theo_def cancel_quotes_def cancel_bid_def cancel_ask_def
  size_quotes_def bisect_zero getitem_def quote_ladder_def place_bid_def place_ask_def
  Let_def

lemma quoting_book2:
  "state_after (handle rtg0 quoting book2) =
     quoting\<lparr>order_ids := 5, ask_id := 4, ask_price := 10200, bid_id := 3, bid_price := 10000,
       new_bid_price := 10000, new_ask_price := 10200, theo_price := 10100,
       bids := {3, 1}, asks := {4, 2}, action_count := 6,
       sent := [InsertOrder 1 BUY 9900 30 GOOD_FOR_DAY, InsertOrder 2 SELL 10100 30 GOOD_FOR_DAY,
                CancelOrder 1, CancelOrder 2,
                InsertOrder 3 BUY 10000 30 GOOD_FOR_DAY, InsertOrder 4 SELL 10200 30 GOOD_FOR_DAY]\<rparr>"
  by (simp add: book2_def rtg0_def quoting_def init_engine_def book_eval book2_theoretical_price)

lemma quoting_book1:
  "state_after (handle rtg0 quoting book1) = quoting"
  by (simp add: book1_def rtg0_def quoting_def init_engine_def book_eval book1_theoretical_price)

theorem cancel_only_on_price_change_witness:
  "cancelled_ids (emitted quoting (state_after (handle rtg0 quoting book2))) = [1, 2]
   \<and> CancelOrder 1 \<in> set (emitted quoting (state_after (handle rtg0 quoting book2)))
   \<and> cancelled_ids (emitted quoting (run rtg0 quoting [book1, book1])) = []"
proof -
  have q: "quoting = run rtg0 init_engine [book1]" by (simp only: run_book1)
  have s2: "state_after (handle rtg0 quoting book2) =
    state_after (on_order_book_update_message rtg0 (Fl 1001, Fl 1001) quoting 0 2
     [10200, 10300, 10400, 10500, 10600] [10, 27, 30, 40, 50]
     [10000, 9900, 9800, 9700, 9600] [13, 20, 30, 40, 50])"
    by (simp add: book2_def)
  have books: "list_all is_book [book1, book1]" by (simp add: book1_def)
  have stay: "targets_stay rtg0 (new_bid_price quoting, new_ask_price quoting) quoting [book1, book1]"
    by (simp add: quoting_book1)
  note th = cancel_only_on_price_change [OF q s2, of "[book1, book1]"]
  from th books stay have "cancelled_ids (emitted quoting (run rtg0 quoting [book1, book1])) = []"
    by blast
  moreover from th have "cancelled_ids (emitted quoting (state_after (handle rtg0 quoting book2))) = [1, 2]"
    unfolding quoting_book2 by (simp add: quoting_def init_engine_def)
  moreover from th have "CancelOrder 1 \<in> set (emitted quoting (state_after (handle rtg0 quoting book2)))"
    unfolding quoting_book2 by (simp add: quoting_def init_engine_def)
  ultimately show ?thesis by blast
qed

subsection \<open>The throttle\<close>

lemma run_append: "run rtg s (xs @ ys) = run rtg (run rtg s xs) ys"
  by (induction xs arbitrary: s) simp_all

lemma cancel_quotes_quiet:
  "\<exists>xs. sent (cancel_quotes s) = sent s @ xs \<and> sleeps xs = [] \<and> issued_ids xs = []"
  by (simp add: cancel_quotes_def cancel_bid_def cancel_ask_def)

lemma cancel_quotes_start_second [simp]: "start_second (cancel_quotes s) = start_second s"
  by (simp add: cancel_quotes_def cancel_bid_def cancel_ask_def)

lemma reset_action_count_fields [simp]:
  "action_count (reset_action_count now s) = 0"
  "start_second (reset_action_count now s) = start_second s"
  "current_time (reset_action_count now s) = now"
  "time_diff (reset_action_count now s) = fsub now (start_second s)"
  by (simp_all add: reset_action_count_def Let_def)

lemma book_update_resets:
  assumes "i = Instrument_FUTURE rtg" and "14 < action_count s"
    and "on_order_book_update_message rtg clock s i n ap av bp bv = Inr s'"
  shows "action_count s' = 0 \<and> start_second s' = start_second s
     \<and> current_time s' = snd clock
     \<and> time_diff s' = fsub (snd clock) (start_second s)
     \<and> sleeps (emitted s s') =
          (if float_lt_int (time_diff s') 1 then [fsub sleep_base (time_diff s')] else [])
     \<and> issued_ids (emitted s s') = []"
  using assms(1)
proof (cases rule: book_update_cases [where clock = clock and s = s and n = n
        and ap = ap and av = av and bp = bp and bv = bv])
  case (raises e)
  with assms(3) show ?thesis by simp
next
  case (quotes p b a vb va s2)
  from cancel_quotes_count [of "mark_start (fst clock) s\<lparr>theo_price := p, new_bid_price := b,
        new_ask_price := a\<rparr>"] assms(2)
  have "14 < action_count s2" unfolding quotes(1) by simp
  with quotes(3) show ?thesis by simp
next
  case (resets p b a s2)
  from assms(2) have ms: "mark_start (fst clock) s = s" by (simp add: mark_start_def)
  from resets(4) assms(3) have s': "s' = reset_action_count (snd clock) s2" by simp
  have st: "start_second s2 = start_second s" unfolding resets(1) ms by simp
  from cancel_quotes_quiet [of "s\<lparr>theo_price := p, new_bid_price := b, new_ask_price := a\<rparr>"]
  obtain xs where xs: "sent s2 = sent s @ xs" "sleeps xs = []" "issued_ids xs = []"
    unfolding resets(1) ms by auto
  have "emitted s s' = xs @ (if float_lt_int (fsub (snd clock) (start_second s)) 1
        then [Sleep (fsub sleep_base (fsub (snd clock) (start_second s)))] else [])"
    unfolding s' by (rule emitted_append) (simp add: sent_reset xs st)
  with xs show ?thesis by (simp add: s' st)
qed

text \<open>
  The throttle above 14. On a book update of the future that returns: if the action count
  is above 14 when the update starts, the trader reads the clock, takes the time since
  \<open>start_second\<close>, sleeps \<open>1.01\<close> less that time when that time is less than 1, sends no
  insert, and sets the count to 0; \<open>start_second\<close> itself stays. The new start of the
  window is written by the next update of the future that finds the count at 0. Between
  the events of any run from the initial state the count is at most 16.
\<close>

theorem throttle_resets_above_14:
  assumes "i = Instrument_FUTURE rtg"
  shows "(14 < action_count s
           \<and> on_order_book_update_message rtg clock s i n ap av bp bv = Inr s' \<longrightarrow>
           action_count s' = 0 \<and> start_second s' = start_second s
           \<and> current_time s' = snd clock
           \<and> time_diff s' = fsub (snd clock) (start_second s)
           \<and> sleeps (emitted s s') =
                (if float_lt_int (time_diff s') 1 then [fsub sleep_base (time_diff s')] else [])
           \<and> issued_ids (emitted s s') = [])
       \<and> (action_count s = 0 \<longrightarrow>
           start_second (state_after (on_order_book_update_message rtg clock s i n ap av bp bv))
             = fst clock)
       \<and> action_count (run rtg init_engine evs) \<le> 16"
proof -
  have "start_second (state_after (on_order_book_update_message rtg clock s i n ap av bp bv))
             = fst clock" if z: "action_count s = 0"
    using assms
  proof (cases rule: book_update_cases [where clock = clock and s = s and n = n
        and ap = ap and av = av and bp = bp and bv = bv])
    case (raises e)
    with z show ?thesis by (simp add: mark_start_def)
  next
    case (quotes p b a vb va s2)
    let ?s3 = "s2\<lparr>position_interval := bisect position_step (position s2),
        bid_volume := vb, ask_volume := va\<rparr>"
    have "start_second (place_ask (place_bid ?s3)) = start_second s2"
      using place_bid_cases [of ?s3] place_ask_cases [of "place_bid ?s3"] by auto
    with quotes(7) z show ?thesis by (simp add: quotes(1) mark_start_def)
  next
    case (resets p b a s2)
    with z show ?thesis by (simp add: mark_start_def)
  qed
  moreover have "action_count (run rtg init_engine evs) \<le> 16"
    using quote_inv_run [OF quote_inv_init, of rtg evs] by (simp add: quote_inv_def)
  ultimately show ?thesis using book_update_resets [OF assms] by blast
qed

lemma run_four_books:
  "run rtg0 init_engine four_books =
     quoting\<lparr>order_ids := 9, ask_id := 8, ask_price := 10200, bid_id := 7, bid_price := 10000,
       new_bid_price := 10000, new_ask_price := 10200, theo_price := 10100,
       bids := {7, 5, 3, 1}, asks := {8, 6, 4, 2}, action_count := 14,
       sent := [InsertOrder 1 BUY 9900 30 GOOD_FOR_DAY, InsertOrder 2 SELL 10100 30 GOOD_FOR_DAY,
                CancelOrder 1, CancelOrder 2,
                InsertOrder 3 BUY 10000 30 GOOD_FOR_DAY, InsertOrder 4 SELL 10200 30 GOOD_FOR_DAY,
                CancelOrder 3, CancelOrder 4,
                InsertOrder 5 BUY 9900 30 GOOD_FOR_DAY, InsertOrder 6 SELL 10100 30 GOOD_FOR_DAY,
                CancelOrder 5, CancelOrder 6,
                InsertOrder 7 BUY 10000 30 GOOD_FOR_DAY, InsertOrder 8 SELL 10200 30 GOOD_FOR_DAY]\<rparr>"
  by (simp add: four_books_def book1_def book2_def rtg0_def init_engine_def quoting_def
      book_eval book1_theoretical_price book2_theoretical_price)

text \<open>
  Claim C4 against the code, at a count of exactly 14. After the run \<open>four_books\<close> the
  count is 14 and both quotes rest at their targets. The second book arriving again starts
  a book update of the future at the threshold; it is handled without a sleep and without
  a reset, and leaves the state as it was, the count still 14. After the run \<open>busy\<close>, whose
  last update also starts at 14 and inserts two quotes, the count is 16 and the trader has
  never slept.
\<close>

theorem throttle_skipped_at_14:
  "action_count (run rtg0 init_engine four_books) = 14
   \<and> handle rtg0 (run rtg0 init_engine four_books) book2 = Inr (run rtg0 init_engine four_books)
   \<and> action_count (run rtg0 init_engine busy) = 16
   \<and> sleeps (sent (run rtg0 init_engine busy)) = []"
  unfolding busy_def run_append run_four_books
  by (simp add: book2_def rtg0_def init_engine_def quoting_def on_order_status_message_def
      book_eval book2_theoretical_price)

lemma book_update_returns:
  assumes "i = Instrument_FUTURE rtg" and "theoretical_price ap av bp bv = Inr p"
  shows "on_order_book_update_message rtg clock s i n ap av bp bv =
     Inr (state_after (on_order_book_update_message rtg clock s i n ap av bp bv))"
  using assms(1)
proof (cases rule: book_update_cases [where clock = clock and s = s and n = n
        and ap = ap and av = av and bp = bp and bv = bv])
  case (raises e)
  with assms(2) show ?thesis by simp
qed simp_all

lemma run_busy_fields:
  "action_count (run rtg0 init_engine busy) = 16
   \<and> start_second (run rtg0 init_engine busy) = Fl 1000"
  unfolding busy_def run_append run_four_books
  by (simp add: book2_def rtg0_def init_engine_def quoting_def on_order_status_message_def
      book_eval book2_theoretical_price)

lemma half_second: "fsub (Fl (2001 / 2)) (Fl 1000) = Fl (1 / 2)"
  by (simp add: fsub_def float_eval)

lemma sleep_half_second:
  "fsub sleep_base (Fl (1 / 2)) = Fl (2296835809958953 / 4503599627370496)"
  by (simp add: fsub_def sleep_base_def float_eval)

theorem throttle_resets_above_14_witness:
  "action_count (state_after (handle rtg0 (run rtg0 init_engine busy) book3)) = 0
   \<and> sleeps (emitted (run rtg0 init_engine busy)
        (state_after (handle rtg0 (run rtg0 init_engine busy) book3)))
       = [Fl (2296835809958953 / 4503599627370496)]
   \<and> start_second (state_after (handle rtg0 init_engine book1)) = Fl 1000
   \<and> action_count (run rtg0 init_engine busy) \<le> 16"
proof -
  define s where "s = run rtg0 init_engine busy"
  define s' where "s' = state_after (handle rtg0 s book3)"
  have fut: "(0::int) = Instrument_FUTURE rtg0" by (simp add: rtg0_def)
  have ret: "on_order_book_update_message rtg0 (Fl (2001 / 2), Fl (2001 / 2)) s 0 3
     [10100, 10200, 10300, 10400, 10500] [10, 27, 30, 40, 50]
     [9900, 9800, 9700, 9600, 9500] [13, 20, 30, 40, 50] = Inr s'"
    unfolding s'_def book3_def handle.simps
    using fut book1_theoretical_price by (rule book_update_returns)
  have cnt: "14 < action_count s" and st: "start_second s = Fl 1000"
    using run_busy_fields by (simp_all add: s_def)
  note th = throttle_resets_above_14 [OF fut, where s = s
      and clock = "(Fl (2001 / 2), Fl (2001 / 2))" and n = 3
      and ap = "[10100, 10200, 10300, 10400, 10500]" and av = "[10, 27, 30, 40, 50]"
      and bp = "[9900, 9800, 9700, 9600, 9500]" and bv = "[13, 20, 30, 40, 50]"
      and s' = s' and evs = busy]
  note th0 = throttle_resets_above_14 [OF fut, where s = init_engine
      and clock = "(Fl 1000, Fl 1000)" and n = 1
      and ap = "[10100, 10200, 10300, 10400, 10500]" and av = "[10, 27, 30, 40, 50]"
      and bp = "[9900, 9800, 9700, 9600, 9500]" and bv = "[13, 20, 30, 40, 50]"]
  from th cnt ret have "action_count s' = 0" by blast
  moreover from th cnt ret st have "sleeps (emitted s s') = [Fl (2296835809958953 / 4503599627370496)]"
    by (simp add: half_second sleep_half_second)
  moreover from th0 have "start_second (state_after (handle rtg0 init_engine book1)) = Fl 1000"
    by (simp add: book1_def init_engine_def)
  moreover from th have "action_count (run rtg0 init_engine busy) \<le> 16" by blast
  ultimately show ?thesis unfolding s'_def s_def by blast
qed

subsection \<open>The theoretical price\<close>

lemma roundd_0 [simp]: "roundd 0 = Fl 0"
  by (simp add: roundd_def)

lemma int_mul_float_0 [simp]: "int_mul_float 0 (Fl w) = Inr (Fl 0)"
  by (simp add: int_mul_float_def float_of_int_def)

lemma zero_volumes_raise:
  assumes "2 \<le> length bp" "2 \<le> length bv" "2 \<le> length ap" "2 \<le> length av"
    and "bv ! 0 = 0" "bv ! 1 = 0" "av ! 0 = 0" "av ! 1 = 0"
  shows "theoretical_price ap av bp bv = Inl ZeroDivisionError"
proof -
  from assms have "theo_numerator ap av bp bv = Inr (Fl 0)"
    by (auto simp: theo_numerator_def getitem_def l0_w_def l1_w_def)
  moreover from assms have "theo_denominator av bv = Inr (Fl 0)"
    by (auto simp: theo_denominator_def getitem_def l0_w_def l1_w_def)
  ultimately show ?thesis by (simp add: theoretical_price_def truediv_def)
qed

text \<open>
  Claim C1 against the code. On a book update of the future whose fair value is computed
  (no bid price is 0, the action count is at most 16, every list has its two best levels)
  and whose four volumes at the two best levels are all 0, the numerator and the
  denominator are both the float 0 and the division raises ZeroDivisionError. The handler
  does not return: the exception leaves it, with only the window start marked.
\<close>

theorem zero_denominator_raises:
  assumes "i = Instrument_FUTURE rtg" and "0 \<notin> set bp" and "action_count s \<le> 16"
    and "2 \<le> length bp" "2 \<le> length bv" "2 \<le> length ap" "2 \<le> length av"
    and "bv ! 0 = 0" "bv ! 1 = 0" "av ! 0 = 0" "av ! 1 = 0"
  shows "on_order_book_update_message rtg clock s i n ap av bp bv =
     Inl (ZeroDivisionError, mark_start (fst clock) s)"
proof -
  have "theoretical_price ap av bp bv = Inl ZeroDivisionError"
    using assms(4-11) by (rule zero_volumes_raise)
  with assms(1-3) show ?thesis
    by (simp add: on_order_book_update_message_def update_theo_def mark_start_def)
qed

theorem zero_denominator_raises_witness:
  "on_order_book_update_message rtg0 (Fl 1000, Fl 1000) init_engine 0 1
     [10100, 10200, 10300, 10400, 10500] [0, 0, 0, 0, 0]
     [9900, 9800, 9700, 9600, 9500] [0, 0, 0, 0, 0]
   = Inl (ZeroDivisionError, init_engine\<lparr>start_second := Fl 1000\<rparr>)"
  using zero_denominator_raises [of 0 rtg0 "[9900, 9800, 9700, 9600, 9500]" init_engine
      "[0, 0, 0, 0, 0]" "[10100, 10200, 10300, 10400, 10500]" "[0, 0, 0, 0, 0]"
      "(Fl 1000, Fl 1000)" 1]
  by (simp add: rtg0_def init_engine_def mark_start_def)

lemma theoretical_price_multiple: "theoretical_price ap av bp bv = Inr p \<Longrightarrow> 100 dvd p"
  by (auto simp: theoretical_price_def bind_err_def split: sum.splits)

lemma theoretical_price_reads_bids:
  "theoretical_price ap av bp bv = Inr p \<Longrightarrow> 2 \<le> length bp \<and> 2 \<le> length ap"
  by (auto simp: theoretical_price_def theo_numerator_def getitem_def bind_err_def
      split: sum.splits if_splits)

lemma cancel_quotes_theo [simp]: "theo_price (cancel_quotes s) = theo_price s"
  by (simp add: cancel_quotes_def cancel_bid_def cancel_ask_def)

lemma place_theo [simp]: "theo_price (place_ask (place_bid s)) = theo_price s"
  using place_bid_cases [of s] place_ask_cases [of "place_bid s"] by auto

lemma reset_theo [simp]: "theo_price (reset_action_count now s) = theo_price s"
  by (simp add: reset_action_count_def Let_def)

lemma book_update_prices:
  assumes "i = Instrument_FUTURE rtg"
    and "on_order_book_update_message rtg clock s i n ap av bp bv = Inr s'"
  shows "if 0 \<notin> set bp \<and> action_count s \<le> 16
       then theoretical_price ap av bp bv = Inr (theo_price s')
         \<and> new_bid_price s' = (if bp ! 0 \<noteq> 0 then theo_price s' - 100 else 0)
         \<and> new_ask_price s' = (if ap ! 0 \<noteq> 0 then theo_price s' + 100 else 0)
       else theo_price s' = theo_price s \<and> new_bid_price s' = new_bid_price s
         \<and> new_ask_price s' = new_ask_price s"
  using assms(1)
proof (cases rule: book_update_cases [where clock = clock and s = s and n = n
        and ap = ap and av = av and bp = bp and bv = bv])
  case (raises e)
  with assms(2) show ?thesis by simp
next
  case (quotes p b a vb va s2)
  from quotes(7) assms(2)
  have "theo_price s' = p" "new_bid_price s' = b" "new_ask_price s' = a"
    by (auto simp: quotes(1))
  with quotes(8) show ?thesis by simp
next
  case (resets p b a s2)
  from resets(4) assms(2)
  have "theo_price s' = p" "new_bid_price s' = b" "new_ask_price s' = a"
    by (auto simp: resets(1))
  with resets(5) show ?thesis by simp
qed

text \<open>
  Claim C3, as amended. On a book update of the future that returns, the fair value is
  recomputed exactly when no bid price of the book is 0 and the action count is at most
  16; otherwise it and both target prices stay. When recomputed it is
  \<open>theoretical_price\<close> of the book: the average of the two best bid and ask prices, each
  weighted by its volume times 0.35 (level 1) or 0.65 (level 2), evaluated in double
  precision, divided by 100, truncated and multiplied by 100, hence a multiple of 100. The
  target bid is one tick below it, the target ask one tick above it, or 0 when the best
  ask price is 0.
\<close>

theorem fair_value_recomputed:
  assumes "i = Instrument_FUTURE rtg"
    and "on_order_book_update_message rtg clock s i n ap av bp bv = Inr s'"
  shows "(0 \<notin> set bp \<and> action_count s \<le> 16 \<longrightarrow>
            theoretical_price ap av bp bv = Inr (theo_price s')
            \<and> 100 dvd theo_price s'
            \<and> new_bid_price s' = theo_price s' - 100
            \<and> new_ask_price s' = (if ap ! 0 \<noteq> 0 then theo_price s' + 100 else 0))
       \<and> (0 \<in> set bp \<or> 16 < action_count s \<longrightarrow>
            theo_price s' = theo_price s \<and> new_bid_price s' = new_bid_price s
            \<and> new_ask_price s' = new_ask_price s)"
proof (cases "0 \<notin> set bp \<and> action_count s \<le> 16")
  case True
  with book_update_prices [OF assms]
  have tp: "theoretical_price ap av bp bv = Inr (theo_price s')"
    and nb: "new_bid_price s' = (if bp ! 0 \<noteq> 0 then theo_price s' - 100 else 0)"
    and na: "new_ask_price s' = (if ap ! 0 \<noteq> 0 then theo_price s' + 100 else 0)"
    by simp_all
  have "bp ! 0 \<in> set bp"
    by (rule nth_mem) (use theoretical_price_reads_bids [OF tp] in auto)
  with True have "bp ! 0 \<noteq> 0" by metis
  with tp nb na theoretical_price_multiple [OF tp] True show ?thesis by simp
next
  case False
  with book_update_prices [OF assms] show ?thesis by auto
qed

lemma thin_book_theoretical_price:
  "theoretical_price [10200, 10300, 0, 0, 0] [10, 10, 0, 0, 0]
     [10000, 0, 0, 0, 0] [10, 0, 0, 0, 0] = Inr 10100"
  by (simp add: theoretical_price_def theo_numerator_def theo_denominator_def float_eval)

text \<open>
  Claim C3 as stated fails on a book whose best bid price is not 0 but whose second bid
  level is empty: at the first action of the window the handler returns with the fair
  value still 0, where the computation on the same levels gives 10100.
\<close>

theorem fair_value_counterexample:
  "[10000, 0, 0, 0, 0] ! 0 \<noteq> (0 :: int)
   \<and> action_count init_engine = 0
   \<and> theoretical_price [10200, 10300, 0, 0, 0] [10, 10, 0, 0, 0]
         [10000, 0, 0, 0, 0] [10, 0, 0, 0, 0] = Inr 10100
   \<and> handle rtg0 init_engine thin_book =
         Inr (init_engine\<lparr>start_second := Fl 1000, position_interval := 6,
               bid_volume := 30, ask_volume := 30\<rparr>)
   \<and> theo_price (init_engine\<lparr>start_second := Fl 1000, position_interval := 6,
               bid_volume := 30, ask_volume := 30\<rparr>) = 0"
  by (simp add: thin_book_theoretical_price)
     (simp add: thin_book_def rtg0_def init_engine_def book_eval)

theorem fair_value_recomputed_witness:
  "theo_price quoting = 10000 \<and> 100 dvd theo_price quoting
   \<and> new_bid_price quoting = 9900 \<and> new_ask_price quoting = 10100
   \<and> theo_price (init_engine\<lparr>start_second := Fl 1000, position_interval := 6,
               bid_volume := 30, ask_volume := 30\<rparr>) = theo_price init_engine"
proof -
  have fut: "(0::int) = Instrument_FUTURE rtg0" by (simp add: rtg0_def)
  have r1: "on_order_book_update_message rtg0 (Fl 1000, Fl 1000) init_engine 0 1
     [10100, 10200, 10300, 10400, 10500] [10, 27, 30, 40, 50]
     [9900, 9800, 9700, 9600, 9500] [13, 20, 30, 40, 50] = Inr quoting"
    using book_update_returns [OF fut book1_theoretical_price, of "(Fl 1000, Fl 1000)" init_engine 1]
      run_book1 by (simp add: book1_def)
  have r2: "on_order_book_update_message rtg0 (Fl 1000, Fl 1000) init_engine 0 1
     [10200, 10300, 0, 0, 0] [10, 10, 0, 0, 0] [10000, 0, 0, 0, 0] [10, 0, 0, 0, 0] =
     Inr (init_engine\<lparr>start_second := Fl 1000, position_interval := 6,
               bid_volume := 30, ask_volume := 30\<rparr>)"
    by (simp add: rtg0_def init_engine_def book_eval)
  from fair_value_recomputed [OF fut r1] book1_theoretical_price
  have "theo_price quoting = 10000 \<and> 100 dvd theo_price quoting
   \<and> new_bid_price quoting = 9900 \<and> new_ask_price quoting = 10100"
    by (simp add: init_engine_def)
  moreover from fair_value_recomputed [OF fut r2]
  have "theo_price (init_engine\<lparr>start_second := Fl 1000, position_interval := 6,
               bid_volume := 30, ask_volume := 30\<rparr>) = theo_price init_engine"
    by simp
  ultimately show ?thesis by blast
qed

subsection \<open>An unchanged fair value with a changed target\<close>

lemma bid_only_book_numerator:
  "theo_numerator [0, 0, 0, 0, 0] [0, 0, 0, 0, 0]
     [10200, 10100, 10000, 9900, 9800] [13, 20, 30, 40, 50] = Inr (Fl 177710)"
  by (simp add: theo_numerator_def float_eval)

lemma bid_only_book_denominator:
  "theo_denominator [0, 0, 0, 0, 0] [13, 20, 30, 40, 50]
     = Inr (Fl (4939885841272013 / 281474976710656))"
  by (simp add: theo_denominator_def float_eval)

lemma bid_only_book_theoretical_price:
  "theoretical_price [0, 0, 0, 0, 0] [0, 0, 0, 0, 0]
     [10200, 10100, 10000, 9900, 9800] [13, 20, 30, 40, 50] = Inr 10100"
  by (simp add: theoretical_price_def bid_only_book_numerator bid_only_book_denominator
      float_eval)

lemma quoting_bid_only_book:
  "state_after (handle rtg0 quoting bid_only_book) =
     quoting\<lparr>order_ids := 4, bid_id := 3, bid_price := 10000,
       new_bid_price := 10000, new_ask_price := 0, theo_price := 10100,
       bids := {3, 1}, action_count := 4,
       sent := [InsertOrder 1 BUY 9900 30 GOOD_FOR_DAY, InsertOrder 2 SELL 10100 30 GOOD_FOR_DAY,
                CancelOrder 1, InsertOrder 3 BUY 10000 30 GOOD_FOR_DAY]\<rparr>"
  by (simp add: bid_only_book_def rtg0_def quoting_def init_engine_def book_eval
      bid_only_book_theoretical_price)

lemma run_bid_only_book:
  "run rtg0 init_engine [book1, bid_only_book] =
     quoting\<lparr>order_ids := 4, bid_id := 3, bid_price := 10000,
       new_bid_price := 10000, new_ask_price := 0, theo_price := 10100,
       bids := {3, 1}, action_count := 4,
       sent := [InsertOrder 1 BUY 9900 30 GOOD_FOR_DAY, InsertOrder 2 SELL 10100 30 GOOD_FOR_DAY,
                CancelOrder 1, InsertOrder 3 BUY 10000 30 GOOD_FOR_DAY]\<rparr>"
  using run_book1 quoting_bid_only_book run_snoc [of rtg0 init_engine "[book1]" bid_only_book]
  by simp

lemma run_bid_only_book_book2:
  "run rtg0 init_engine [book1, bid_only_book, book2] =
     quoting\<lparr>order_ids := 5, ask_id := 4, ask_price := 10200, bid_id := 3, bid_price := 10000,
       new_bid_price := 10000, new_ask_price := 10200, theo_price := 10100,
       bids := {3, 1}, asks := {4, 2}, action_count := 6,
       sent := [InsertOrder 1 BUY 9900 30 GOOD_FOR_DAY, InsertOrder 2 SELL 10100 30 GOOD_FOR_DAY,
                CancelOrder 1, InsertOrder 3 BUY 10000 30 GOOD_FOR_DAY,
                CancelOrder 2, InsertOrder 4 SELL 10200 30 GOOD_FOR_DAY]\<rparr>"
proof -
  have "run rtg0 init_engine [book1, bid_only_book, book2] =
      state_after (handle rtg0 (run rtg0 init_engine [book1, bid_only_book]) book2)"
    using run_snoc [of rtg0 init_engine "[book1, bid_only_book]" book2] by simp
  then show ?thesis unfolding run_bid_only_book
    by (simp add: book2_def rtg0_def quoting_def init_engine_def book_eval
        book2_theoretical_price)
qed

text \<open>
  Claim C5 as stated fails where it takes an unchanged fair value to mean unchanged target
  prices. After the first book and then the book with bids only, the fair value is 10100,
  the ask (order 2) still rests at 10100 and its target is 0. The second book leaves the
  fair value at 10100, yet the ask target moves to 10200, and the ask is cancelled and
  inserted again.
\<close>

theorem fair_value_constant_counterexample:
  "theo_price (run rtg0 init_engine [book1, bid_only_book]) = 10100
   \<and> ask_id (run rtg0 init_engine [book1, bid_only_book]) = 2
   \<and> theo_price (run rtg0 init_engine [book1, bid_only_book, book2]) = 10100
   \<and> emitted (run rtg0 init_engine [book1, bid_only_book])
        (run rtg0 init_engine [book1, bid_only_book, book2])
       = [CancelOrder 2, InsertOrder 4 SELL 10200 30 GOOD_FOR_DAY]"
  unfolding run_bid_only_book run_bid_only_book_book2
  by (simp add: quoting_def init_engine_def emitted_def)

end
